theory Spec2Isabelle
  imports Complex_Main "HOL-Library.Sublist" "HOL-Library.Log_Nat"
begin

section \<open>The metrics service of \<^verbatim>\<open>src/agent-patcher.js\<close>\<close>

text \<open>
  The class \<^verbatim>\<open>MetricsService\<close> computes quality metrics from validation-result records
  read from a directory of JSON files, and caches the assembled snapshot for five minutes.

  Conventions of the embedding:
  \<^item> An instant (\<^verbatim>\<open>Date\<close>, ISO timestamp) is the number of milliseconds since the epoch,
    an \<open>int\<close>. \<^verbatim>\<open>Date.now()\<close> is the parameter \<open>now\<close>: the source reads the clock
    several times while it serves one request, and the embedding gives all these reads the
    same value.
  \<^item> A JavaScript number is an IEEE double. A count is the length of an array, below
    \<open>2^32\<close>, and a timestamp or a duration is an integer of milliseconds: these are
    \<open>nat\<close> and \<open>int\<close>, which a double holds exactly. A number that is not an integer
    is the \<open>rat\<close> that the double denotes, and each division, multiplication or subtraction
    that produces one is rounded to the nearest double by \<open>double\<close>. The averages, where
    \<^verbatim>\<open>Math.round\<close> is applied at once to one quotient of two integers, are formed exactly:
    for a numerator below \<open>2^52\<close> the double quotient rounds to the same integer (lemma
    \<open>Math_round_double_quotient\<close>).
  \<^item> An optional field of an object is an \<open>option\<close>; \<open>None\<close> is \<^verbatim>\<open>undefined\<close>.
  \<^item> A rejected promise or a thrown exception is \<open>Inl\<close> of a sum, a result is \<open>Inr\<close>.
    The limits of the engine (the stack, the memory) are not part of the embedding.
\<close>

subsection \<open>Numbers\<close>

text \<open>\<^verbatim>\<open>Math.round\<close>: the nearest integer, a half rounded towards plus infinity.\<close>

definition Math_round :: "rat \<Rightarrow> int" where
  "Math_round x = \<lfloor>x + 1 / 2\<rfloor>"

text \<open>
  Rounding to the nearest double. A positive number \<open>x\<close> has its binade \<open>e\<close>, with
  \<open>2^e \<le> x < 2^(e+1)\<close>; its double is the multiple of \<open>2^(e-52)\<close> nearest to it, a tie going
  to the even multiple. The exponent is not bounded here: the quotients of this program are
  far from the subnormal numbers and from overflow.
\<close>

definition round_even :: "rat \<Rightarrow> int" where
  "round_even s =
     (let f = \<lfloor>s\<rfloor>; r = s - of_int f
      in if r < 1 / 2 then f
         else if 1 / 2 < r then f + 1
         else if even f then f else f + 1)"

definition binade :: "rat \<Rightarrow> int" where
  "binade x =
     (let n = fst (quotient_of x); d = snd (quotient_of x); k = bitlen n - bitlen d
      in if 2 powi k \<le> x then k else k - 1)"

definition double :: "rat \<Rightarrow> rat" where
  "double x =
     (if x = 0 then 0
      else let e = binade \<bar>x\<bar>;
               m = round_even (\<bar>x\<bar> * 2 powi (52 - e))
           in sgn x * of_int m * 2 powi (e - 52))"

text \<open>
  \<^verbatim>\<open>new Date(t)\<close> is a date when \<open>t\<close> is at most \<open>8.64 * 10^15\<close> ms from the epoch, and
  an \<^verbatim>\<open>Invalid Date\<close> otherwise. An \<^verbatim>\<open>Invalid Date\<close> compares false with every date,
  and \<^verbatim>\<open>toISOString\<close> throws a \<^verbatim>\<open>RangeError\<close> on it. \<open>new_Date\<close> is the time value
  of the date, \<open>None\<close> for an \<^verbatim>\<open>Invalid Date\<close>. The clock and the timestamps of the
  records are dates.
\<close>

text \<open>An \<^verbatim>\<open>Error\<close> with its message.\<close>

datatype error = Error string

definition validDate :: "int \<Rightarrow> bool" where
  "validDate t = (\<bar>t\<bar> \<le> 8640000000000000)"

definition new_Date :: "int \<Rightarrow> int option" where
  "new_Date t = (if validDate t then Some t else None)"

subsection \<open>Validation results\<close>

record pattern =
  name :: "string option"
  type :: "string option"
  confidence :: "rat option"
  scope :: "string option"

record validationResult =
  project :: "string option"
  timestamp :: int
  status :: string
  executionTime :: "int option"
  testCount :: "int option"
  totalTests :: "int option"
  patterns :: "pattern list option"

text \<open>One day in milliseconds, \<^verbatim>\<open>24 * 60 * 60 * 1000\<close>.\<close>

definition dayMs :: int where
  "dayMs = 24 * 60 * 60 * 1000"

subsection \<open>\<^verbatim>\<open>calculateTrend\<close>\<close>

text \<open>\<^verbatim>\<open>xs.slice(-n)\<close> for \<open>n > 0\<close>: the last \<open>n\<close> elements; \<^verbatim>\<open>xs.slice(-0)\<close> is
  \<^verbatim>\<open>xs.slice(0)\<close>, the whole array.\<close>

definition slice_last :: "nat \<Rightarrow> 'a list \<Rightarrow> 'a list" where
  "slice_last n xs = (if n = 0 then xs else drop (length xs - n) xs)"

definition calculateTrend :: "int \<Rightarrow> validationResult list \<Rightarrow> int \<Rightarrow> string" where
  "calculateTrend now results days =
     (if length results < 10 then ''stable''
      else
        let cutoff = now - days * dayMs;
            recent = filter (\<lambda>r. timestamp r \<ge> cutoff) results;
            previous = slice_last (length recent) (filter (\<lambda>r. timestamp r < cutoff) results)
        in if length recent < 5 \<or> length previous < 5 then ''stable''
           else
             let recentSuccessRate =
                   double (of_nat (length (filter (\<lambda>r. status r = ''success'') recent))
                             / of_nat (length recent));
                 previousSuccessRate =
                   double (of_nat (length (filter (\<lambda>r. status r = ''success'') previous))
                             / of_nat (length previous));
                 difference = double (recentSuccessRate - previousSuccessRate)
             in if difference > double (5 / 100) then ''improving''
                else if difference < - double (5 / 100) then ''declining''
                else ''stable'')"

subsection \<open>\<^verbatim>\<open>calculateOverviewMetrics\<close>\<close>

record breakdown =
  successful :: nat
  failed :: nat
  warnings :: nat

text \<open>The object returned for the empty array has no \<^verbatim>\<open>breakdown\<close> key, so the field is
  optional. In \<^verbatim>\<open>Math.round((x / total) * 100)\<close> the quotient and the product are rounded
  to doubles; \<^verbatim>\<open>successful + warnings * 0.5\<close> is a multiple of a half below \<open>2^32\<close>, which
  is a double.\<close>

record overviewMetrics =
  totalValidations :: nat
  successRate :: int
  failureRate :: int
  warningRate :: int
  qualityScore :: int
  trend :: string
  breakdown :: "breakdown option"

definition calculateOverviewMetrics :: "int \<Rightarrow> validationResult list \<Rightarrow> overviewMetrics" where
  "calculateOverviewMetrics now results =
     (let total = length results in
      if total = 0 then
        \<lparr>totalValidations = 0, successRate = 0, failureRate = 0, warningRate = 0,
         qualityScore = 0, trend = ''stable'', breakdown = None\<rparr>
      else
        let successful = length (filter (\<lambda>r. status r = ''success'') results);
            failed = length (filter (\<lambda>r. status r = ''failure'') results);
            warnings = length (filter (\<lambda>r. status r = ''warning'') results);
            successRate = Math_round (double (double (of_nat successful / of_nat total) * 100));
            failureRate = Math_round (double (double (of_nat failed / of_nat total) * 100));
            warningRate = Math_round (double (double (of_nat warnings / of_nat total) * 100));
            qualityScore =
              Math_round (double (double ((of_nat successful + (of_nat warnings * (1 / 2)))
                                            / of_nat total) * 100));
            trend = calculateTrend now results 7
        in \<lparr>totalValidations = total, successRate = successRate, failureRate = failureRate,
            warningRate = warningRate, qualityScore = qualityScore, trend = trend,
            breakdown = Some \<lparr>successful = successful, failed = failed, warnings = warnings\<rparr>\<rparr>)"

subsection \<open>\<^verbatim>\<open>calculateTrendMetrics\<close>\<close>

record dateRange =
  start :: int
  end' :: int

text \<open>A trend entry is \<^verbatim>\<open>{period, ...periodMetrics, dateRange}\<close>: the overview of the period
  extended by two keys. \<^verbatim>\<open>period\<close> is the UTC calendar day of \<^verbatim>\<open>periodEnd\<close>, the part of
  its ISO string before the \<^verbatim>\<open>T\<close>; the embedding keeps the number of that day, counted
  from the epoch.\<close>

record trendEntry = overviewMetrics +
  period :: int
  dateRange :: dateRange

definition daysPerPeriod :: "int \<Rightarrow> int" where
  "daysPerPeriod timeframe = max 1 (timeframe div 10)"

definition periodEnd :: "int \<Rightarrow> int \<Rightarrow> int" where
  "periodEnd now i = now - i * dayMs"

definition periodStart :: "int \<Rightarrow> int \<Rightarrow> int \<Rightarrow> int" where
  "periodStart now timeframe i = periodEnd now i - daysPerPeriod timeframe * dayMs"

definition periodResults :: "validationResult list \<Rightarrow> int \<Rightarrow> int \<Rightarrow> int \<Rightarrow> validationResult list" where
  "periodResults results now timeframe i =
     filter (\<lambda>r. timestamp r \<ge> periodStart now timeframe i \<and> timestamp r < periodEnd now i) results"

text \<open>The body of the loop, for the loop variable \<open>i\<close>.\<close>

definition trendEntryAt :: "validationResult list \<Rightarrow> int \<Rightarrow> int \<Rightarrow> int \<Rightarrow> trendEntry" where
  "trendEntryAt results now timeframe i =
     overviewMetrics.extend
       (calculateOverviewMetrics now (periodResults results now timeframe i))
       (trendEntry.fields (periodEnd now i div dayMs)
          \<lparr>start = periodStart now timeframe i, end' = periodEnd now i\<rparr>)"

text \<open>\<^verbatim>\<open>for (let i = timeframe; i >= 0; i -= daysPerPeriod)\<close>, each round pushing one entry.\<close>

function trendLoop :: "validationResult list \<Rightarrow> int \<Rightarrow> int \<Rightarrow> int \<Rightarrow> trendEntry list" where
  "trendLoop results now timeframe i =
     (if i \<ge> 0
      then trendEntryAt results now timeframe i
             # trendLoop results now timeframe (i - daysPerPeriod timeframe)
      else [])"
  by pat_completeness auto
termination
  by (relation "measure (\<lambda>(results, now, timeframe, i). nat (i + 1))")
     (auto simp: daysPerPeriod_def)

declare trendLoop.simps [simp del]

text \<open>The array that the method returns, when it returns.\<close>

definition calculateTrendMetrics :: "int \<Rightarrow> validationResult list \<Rightarrow> int \<Rightarrow> trendEntry list" where
  "calculateTrendMetrics now results timeframe = trendLoop results now timeframe timeframe"

text \<open>
  When the method throws. A round builds its entry from \<^verbatim>\<open>periodEnd.toISOString()\<close> and
  \<^verbatim>\<open>periodStart.toISOString()\<close>, which throw a \<^verbatim>\<open>RangeError\<close> with the message
  \<^verbatim>\<open>Invalid time value\<close> when the date is an \<^verbatim>\<open>Invalid Date\<close>; \<^verbatim>\<open>periodStart\<close> is made
  from \<^verbatim>\<open>periodEnd.getTime()\<close> and is invalid when \<^verbatim>\<open>periodEnd\<close> is. The same loop, with
  the error of the first round that throws, or \<open>None\<close> when every round pushes its entry.
\<close>

function trendLoop_throws :: "int \<Rightarrow> int \<Rightarrow> int \<Rightarrow> error option" where
  "trendLoop_throws now timeframe i =
     (if i \<ge> 0
      then if validDate (periodEnd now i) \<and> validDate (periodStart now timeframe i)
           then trendLoop_throws now timeframe (i - daysPerPeriod timeframe)
           else Some (Error ''Invalid time value'')
      else None)"
  by pat_completeness auto
termination
  by (relation "measure (\<lambda>(now, timeframe, i). nat (i + 1))")
     (auto simp: daysPerPeriod_def)

declare trendLoop_throws.simps [simp del]

definition calculateTrendMetrics_throws :: "int \<Rightarrow> int \<Rightarrow> error option" where
  "calculateTrendMetrics_throws now timeframe = trendLoop_throws now timeframe timeframe"

subsection \<open>\<^verbatim>\<open>calculatePerformanceMetrics\<close>\<close>

text \<open>\<^verbatim>\<open>Boolean(x)\<close> for an optional number: \<^verbatim>\<open>undefined\<close> and \<^verbatim>\<open>0\<close> are falsy.\<close>

definition Boolean :: "int option \<Rightarrow> bool" where
  "Boolean x = (case x of None \<Rightarrow> False | Some n \<Rightarrow> n \<noteq> 0)"

text \<open>\<^verbatim>\<open>a || b\<close> on optional numbers.\<close>

definition or_else :: "int option \<Rightarrow> int option \<Rightarrow> int option" where
  "or_else a b = (if Boolean a then a else b)"

text \<open>\<^verbatim>\<open>xs.filter(Boolean)\<close>, read as the list of the numbers that remain.\<close>

definition filter_Boolean :: "int option list \<Rightarrow> int list" where
  "filter_Boolean xs = map the (filter Boolean xs)"

record performanceMetrics =
  averageExecutionTime :: int
  medianExecutionTime :: int
  maxExecutionTime :: int
  minExecutionTime :: int
  averageTestCount :: int
  totalTestsExecuted :: int
  throughput :: rat

definition median :: "int list \<Rightarrow> int" where
  "median executionTimes =
     (let sorted = sort executionTimes;
          mid = length sorted div 2
      in if length sorted mod 2 = 0
         then Math_round (of_int (sorted ! (mid - 1) + sorted ! mid) / 2)
         else sorted ! mid)"

definition calculatePerformanceMetrics :: "validationResult list \<Rightarrow> performanceMetrics" where
  "calculatePerformanceMetrics results =
     (let executionTimes = filter_Boolean (map executionTime results);
          testCounts = filter_Boolean (map (\<lambda>r. or_else (testCount r) (totalTests r)) results)
      in \<lparr>averageExecutionTime =
            (if length executionTimes > 0
             then Math_round (of_int (sum_list executionTimes) / of_nat (length executionTimes))
             else 0),
          medianExecutionTime = (if length executionTimes > 0 then median executionTimes else 0),
          maxExecutionTime = (if length executionTimes > 0 then Max (set executionTimes) else 0),
          minExecutionTime = (if length executionTimes > 0 then Min (set executionTimes) else 0),
          averageTestCount =
            (if length testCounts > 0
             then Math_round (of_int (sum_list testCounts) / of_nat (length testCounts))
             else 0),
          totalTestsExecuted = sum_list testCounts,
          throughput =
            (if length results > 1
             then
               let timeSpan = timestamp (results ! (length results - 1)) - timestamp (results ! 0);
                   hours = double (of_int timeSpan / (1000 * 60 * 60))
               in if hours > 0
                  then double (of_int (Math_round
                                 (double (double (of_nat (length results) / hours) * 100)))
                               / 100)
                  else 0
             else 0)\<rparr>)"

subsection \<open>Numbers in strings\<close>

text \<open>The decimal digits of an integer, as a template literal or a string concatenation
  prints it below \<open>10^21\<close>; \<open>digits\<close> is applied to numbers from 0 on.\<close>

definition digit :: "nat \<Rightarrow> char" where
  "digit d = ''0123456789'' ! d"

function digits :: "int \<Rightarrow> string" where
  "digits n =
     (if n < 10 then [digit (nat n)] else digits (n div 10) @ [digit (nat (n mod 10))])"
  by pat_completeness auto
termination
  by (relation "measure (\<lambda>n. nat n)") auto

declare digits.simps [simp del]

definition Number_toString :: "int \<Rightarrow> string" where
  "Number_toString i = (if i < 0 then ''-'' @ digits (- i) else digits i)"

subsection \<open>\<^verbatim>\<open>calculateHealthMetrics\<close>\<close>

text \<open>An indicator is \<^verbatim>\<open>{type, message}\<close>; its key \<^verbatim>\<open>type\<close> is \<open>indicatorType\<close> here.\<close>

record indicator =
  indicatorType :: string
  message :: string

text \<open>The object returned for the empty array has no \<^verbatim>\<open>lastUpdate\<close> key.\<close>

record healthMetrics =
  overall :: string
  score :: int
  indicators :: "indicator list"
  recommendations :: "string list"
  lastUpdate :: "int option"

text \<open>\<^verbatim>\<open>p.name || p.type\<close>: the empty string is falsy.\<close>

definition name_or_type :: "pattern \<Rightarrow> string option" where
  "name_or_type p =
     (case name p of
        Some n \<Rightarrow> if n \<noteq> [] then Some n else type p
      | None \<Rightarrow> type p)"

text \<open>The set \<^verbatim>\<open>patternsUsed\<close>; a pattern with neither name nor type adds
  \<^verbatim>\<open>undefined\<close>, which is \<open>None\<close> here.\<close>

definition patternsUsed :: "validationResult list \<Rightarrow> string option set" where
  "patternsUsed recentResults =
     set (concat (map (\<lambda>r. case patterns r of None \<Rightarrow> [] | Some ps \<Rightarrow> map name_or_type ps)
                      recentResults))"

text \<open>The four checks in turn. Each takes and returns the triple of \<^verbatim>\<open>score\<close>,
  \<^verbatim>\<open>indicators\<close> and \<^verbatim>\<open>recommendations\<close>.\<close>

type_synonym healthState = "int \<times> indicator list \<times> string list"

definition successRateIndicator :: "validationResult list \<Rightarrow> healthState \<Rightarrow> healthState" where
  "successRateIndicator results st =
     (let score = fst st; indicators = fst (snd st); recommendations = snd (snd st);
          successRate =
            Math_round (double (double (of_nat (length (filter (\<lambda>r. status r = ''success'')
                                                          results))
                                          / of_nat (length results)) * 100))
      in if successRate < 70 then
           (score - (70 - successRate),
            indicators @ [\<lparr>indicatorType = ''warning'',
                message = ''Low success rate: '' @ Number_toString successRate @ ''%''\<rparr>],
            recommendations @ [''Review failing validation patterns and improve test quality''])
         else if successRate \<ge> 95 then
           (score,
            indicators @ [\<lparr>indicatorType = ''success'',
                message = ''Excellent success rate: '' @ Number_toString successRate @ ''%''\<rparr>],
            recommendations)
         else st)"

definition trendIndicator :: "int \<Rightarrow> validationResult list \<Rightarrow> healthState \<Rightarrow> healthState" where
  "trendIndicator now results st =
     (let score = fst st; indicators = fst (snd st); recommendations = snd (snd st);
          trend = calculateTrend now results 7
      in if trend = ''declining'' then
           (score - 15,
            indicators @ [\<lparr>indicatorType = ''warning'', message = ''Quality trend is declining''\<rparr>],
            recommendations
              @ [''Investigate recent changes that may be affecting validation quality''])
         else if trend = ''improving'' then
           (score,
            indicators @ [\<lparr>indicatorType = ''success'', message = ''Quality trend is improving''\<rparr>],
            recommendations)
         else st)"

definition patternIndicator :: "validationResult list \<Rightarrow> healthState \<Rightarrow> healthState" where
  "patternIndicator results st =
     (let score = fst st; indicators = fst (snd st); recommendations = snd (snd st);
          recentResults = slice_last 20 results
      in if card (patternsUsed recentResults) < 3 \<and> length results > 10 then
           (score - 5,
            indicators
              @ [\<lparr>indicatorType = ''info'', message = ''Limited pattern diversity detected''\<rparr>],
            recommendations
              @ [''Consider expanding pattern library to improve validation coverage''])
         else st)"

definition performanceIndicator :: "validationResult list \<Rightarrow> healthState \<Rightarrow> healthState" where
  "performanceIndicator results st =
     (let score = fst st; indicators = fst (snd st); recommendations = snd (snd st);
          executionTimes = filter_Boolean (map executionTime results)
      in if length executionTimes > 0
            \<and> double (of_int (sum_list executionTimes) / of_nat (length executionTimes))
                  > 30000
         then
           (score - 10,
            indicators
              @ [\<lparr>indicatorType = ''warning'', message = ''Slow average validation time''\<rparr>],
            recommendations @ [''Optimize validation processes to improve performance''])
         else st)"

definition calculateHealthMetrics :: "int \<Rightarrow> validationResult list \<Rightarrow> healthMetrics" where
  "calculateHealthMetrics now results =
     (if length results = 0 then
        \<lparr>overall = ''unknown'', score = 0, indicators = [],
         recommendations = [''No validation data available''], lastUpdate = None\<rparr>
      else
        let st = performanceIndicator results
                   (patternIndicator results
                     (trendIndicator now results
                       (successRateIndicator results (100, [], []))));
            score = fst st; indicators = fst (snd st); recommendations = snd (snd st)
        in \<lparr>overall =
               (if score < 60 then ''poor''
                else if score < 75 then ''fair''
                else if score < 90 then ''good''
                else ''excellent''),
             score = max 0 score,
             indicators = indicators,
             recommendations = recommendations,
             lastUpdate = Some now\<rparr>)"

subsection \<open>The result store and \<^verbatim>\<open>loadValidationResults\<close>\<close>

text \<open>
  The directory \<^verbatim>\<open>validationResultsPath\<close> as the three calls of \<^verbatim>\<open>fs-extra\<close> see it.
  \<^verbatim>\<open>ensureDir\<close> succeeds or throws; \<^verbatim>\<open>readdir\<close> throws or lists the entries; for each
  entry \<^verbatim>\<open>readJson\<close> throws or returns the parsed object and \<^verbatim>\<open>stat\<close> throws or returns
  the modification time. The parsed object is the record it denotes, together with its
  \<^verbatim>\<open>timestamp\<close> key, which may be missing; \<open>timestamp (object d)\<close> is then not read.
  A \<^verbatim>\<open>timestamp\<close> key that is present holds a date, which is truthy.
\<close>

record jsonData =
  timestampKey :: "int option"
  object :: validationResult

record dirent =
  fileName :: string
  readJson :: "error + jsonData"
  stat_mtime :: "error + int"

record resultStore =
  ensureDir :: "error option"
  readdir :: "error + dirent list"

text \<open>\<^verbatim>\<open>toLowerCase\<close>, on the letters of ASCII.\<close>

definition toLowerCase :: "string \<Rightarrow> string" where
  "toLowerCase s =
     map (\<lambda>c. case map_of (zip ''ABCDEFGHIJKLMNOPQRSTUVWXYZ'' ''abcdefghijklmnopqrstuvwxyz'') c of
                 Some l \<Rightarrow> l
               | None \<Rightarrow> c) s"

text \<open>\<^verbatim>\<open>s.includes(t)\<close> is \<^term>\<open>sublist t s\<close> and \<^verbatim>\<open>s.endsWith(t)\<close> is \<^term>\<open>suffix t s\<close>.\<close>

text \<open>A string is truthy when it is defined and not empty.\<close>

definition truthy :: "string option \<Rightarrow> bool" where
  "truthy s = (case s of None \<Rightarrow> False | Some t \<Rightarrow> t \<noteq> [])"

text \<open>The body of the loop over the files: \<open>Some\<close> of the record pushed, \<open>None\<close> when the
  file is skipped by \<^verbatim>\<open>continue\<close> or by the \<^verbatim>\<open>catch\<close> that logs a warning. The
  cutoff is \<open>None\<close> when \<^verbatim>\<open>cutoffDate\<close> is \<^verbatim>\<open>null\<close> and when it is an
  \<^verbatim>\<open>Invalid Date\<close>: the test
  \<^verbatim>\<open>cutoffDate && new Date(data.timestamp) < cutoffDate\<close> is false for both.\<close>

definition loadFile :: "string option \<Rightarrow> int option \<Rightarrow> dirent \<Rightarrow> validationResult option" where
  "loadFile projectName cutoffDate file =
     (case readJson file of
        Inl e \<Rightarrow> None
      | Inr d \<Rightarrow>
         (case stat_mtime file of
            Inl e \<Rightarrow> None
          | Inr mtime \<Rightarrow>
             let data = (object d)\<lparr>timestamp :=
                          (case timestampKey d of None \<Rightarrow> mtime | Some t \<Rightarrow> t)\<rparr>
             in if (case cutoffDate of None \<Rightarrow> False | Some c \<Rightarrow> timestamp data < c) then None
                else if truthy projectName
                        \<and> (\<not> truthy (project data)
                             \<or> \<not> sublist (toLowerCase (the projectName))
                                           (toLowerCase (the (project data))))
                then None
                else Some data))"

fun loadLoop :: "string option \<Rightarrow> int option \<Rightarrow> dirent list \<Rightarrow> validationResult list" where
  "loadLoop projectName cutoffDate [] = []"
| "loadLoop projectName cutoffDate (file # jsonFiles) =
     (case loadFile projectName cutoffDate file of
        None \<Rightarrow> loadLoop projectName cutoffDate jsonFiles
      | Some data \<Rightarrow> data # loadLoop projectName cutoffDate jsonFiles)"

text \<open>\<^verbatim>\<open>Array.prototype.sort\<close> is stable, as \<^const>\<open>sort_key\<close> is.\<close>

definition loadValidationResults ::
  "resultStore \<Rightarrow> string option \<Rightarrow> int option \<Rightarrow> error + validationResult list" where
  "loadValidationResults store projectName cutoffDate =
     (case ensureDir store of
        Some e \<Rightarrow> Inl e
      | None \<Rightarrow>
         (case readdir store of
            Inl e \<Rightarrow> Inl e
          | Inr files \<Rightarrow>
             let jsonFiles = filter (\<lambda>f. suffix ''.json'' (fileName f)) files;
                 results = loadLoop projectName cutoffDate jsonFiles
             in Inr (sort_key timestamp results)))"

subsection \<open>\<^verbatim>\<open>calculateComparativeMetrics\<close>\<close>

text \<open>\<^verbatim>\<open>projectGroups\<close> is a \<^verbatim>\<open>Map\<close>, iterated in the order in which its keys were first
  set: an association list. One round of the \<^verbatim>\<open>forEach\<close> appends the record to the group
  of its project, after creating the group at the end of the map when it is new.\<close>

definition groupPush ::
  "(string \<times> validationResult list) list \<Rightarrow> validationResult
     \<Rightarrow> (string \<times> validationResult list) list" where
  "groupPush projectGroups result =
     (let project = (if truthy (project result) then the (project result) else ''unknown'');
          groups = (if project \<in> set (map fst projectGroups) then projectGroups
                    else projectGroups @ [(project, [])])
      in map (\<lambda>(k, v). if k = project then (k, v @ [result]) else (k, v)) groups)"

definition groupByProject :: "validationResult list \<Rightarrow> (string \<times> validationResult list) list" where
  "groupByProject allResults = foldl groupPush [] allResults"

text \<open>A comparison is
  \<^verbatim>\<open>{project, isCurrent, ...overview, averageExecutionTime, totalTestsExecuted, lastValidation}\<close>.
  The keys that other records of this theory have too carry the prefix \<open>c_\<close>.\<close>

record comparison = overviewMetrics +
  c_project :: string
  isCurrent :: bool
  c_averageExecutionTime :: int
  c_totalTestsExecuted :: int
  lastValidation :: "int option"

text \<open>\<^verbatim>\<open>industryAverage\<close> is \<^verbatim>\<open>{qualityScore, successRate}\<close>; its keys carry the prefix
  \<open>avg\<close> here.\<close>

record industryAverage =
  avgQualityScore :: int
  avgSuccessRate :: int

record comparativeMetrics =
  projects :: "comparison list"
  totalProjects :: nat
  currentProjectRank :: "int option"
  industryAverage :: industryAverage

text \<open>The body of the loop over the groups: \<open>None\<close> for a group skipped by
  \<^verbatim>\<open>continue\<close>.\<close>

definition compareProject ::
  "int \<Rightarrow> string option \<Rightarrow> string \<times> validationResult list \<Rightarrow> comparison option" where
  "compareProject now currentProject entry =
     (let projectName = fst entry; results = snd entry
      in if length results < 5 then None
         else
           let overview = calculateOverviewMetrics now results;
               performance = calculatePerformanceMetrics results
           in Some (overviewMetrics.extend overview
                (comparison.fields projectName (Some projectName = currentProject)
                   (averageExecutionTime performance) (totalTestsExecuted performance)
                   (if results = [] then None else Some (timestamp (last results))))))"

text \<open>\<^verbatim>\<open>Array.prototype.findIndex\<close>: the first index whose element satisfies the predicate,
  or \<open>-1\<close>.\<close>

fun findIndex :: "('a \<Rightarrow> bool) \<Rightarrow> 'a list \<Rightarrow> int" where
  "findIndex P [] = - 1"
| "findIndex P (x # xs) =
     (if P x then 0 else let i = findIndex P xs in if i < 0 then - 1 else i + 1)"

definition zeroedComparative :: comparativeMetrics where
  "zeroedComparative =
     \<lparr>projects = [], totalProjects = 0, currentProjectRank = None,
      industryAverage = \<lparr>avgQualityScore = 0, avgSuccessRate = 0\<rparr>\<rparr>"

text \<open>The \<^verbatim>\<open>try\<close> block, from the records of all projects on.\<close>

definition compareAll :: "int \<Rightarrow> string option \<Rightarrow> validationResult list \<Rightarrow> comparativeMetrics" where
  "compareAll now currentProject allResults =
     (let projectGroups = groupByProject allResults;
          comparisons = sort_key (\<lambda>c. - qualityScore c)
                          (List.map_filter (compareProject now currentProject) projectGroups);
          currentRank = (if truthy currentProject
                         then Some (findIndex (\<lambda>c. Some (c_project c) = currentProject) comparisons + 1)
                         else None)
      in \<lparr>projects = comparisons,
          totalProjects = length comparisons,
          currentProjectRank = currentRank,
          industryAverage =
            \<lparr>avgQualityScore =
               (if length comparisons > 0
                then Math_round (of_int (sum_list (map qualityScore comparisons))
                                   / of_nat (length comparisons))
                else 0),
             avgSuccessRate =
               (if length comparisons > 0
                then Math_round (of_int (sum_list (map successRate comparisons))
                                   / of_nat (length comparisons))
                else 0)\<rparr>\<rparr>)"

text \<open>The method: the \<^verbatim>\<open>try\<close> block loads the records of all projects without a filter;
  the \<^verbatim>\<open>catch\<close> logs the error and returns the zeroed structure. The method is
  \<^verbatim>\<open>async\<close>, so its result is a sum like that of the other asynchronous methods.\<close>

definition calculateComparativeMetrics ::
  "resultStore \<Rightarrow> int \<Rightarrow> validationResult list \<Rightarrow> string option \<Rightarrow> error + comparativeMetrics" where
  "calculateComparativeMetrics store now currentResults currentProject =
     (case loadValidationResults store None None of
        Inr allResults \<Rightarrow> Inr (compareAll now currentProject allResults)
      | Inl e \<Rightarrow> Inr zeroedComparative)"

subsection \<open>\<^verbatim>\<open>getPatternLibraryStats\<close> and \<^verbatim>\<open>calculatePatternMetrics\<close>\<close>

record libraryEntry =
  count :: nat
  version :: string

record libraryStats =
  universal :: libraryEntry
  backend :: libraryEntry
  frontend :: libraryEntry
  total :: nat

text \<open>A pattern-library file: \<^verbatim>\<open>pathExists\<close> is false, or \<^verbatim>\<open>readJson\<close> throws, or it
  returns an object with the length of its \<^verbatim>\<open>patterns\<close>, if it has that key, and its
  \<^verbatim>\<open>version\<close>, if it has that key.\<close>

datatype libraryFile =
  Missing
| Unreadable error
| Library "nat option" "string option"

record patternLibrary =
  universalFile :: libraryFile
  backendFile :: libraryFile
  frontendFile :: libraryFile

definition emptyEntry :: libraryEntry where
  "emptyEntry = \<lparr>count = 0, version = ''0.0.0''\<rparr>"

text \<open>One of the three blocks: an error, or the entry to store, or nothing to store.\<close>

definition readLibrary :: "libraryFile \<Rightarrow> error + libraryEntry option" where
  "readLibrary f =
     (case f of
        Missing \<Rightarrow> Inr None
      | Unreadable e \<Rightarrow> Inl e
      | Library ps v \<Rightarrow>
          Inr (Some \<lparr>count = (case ps of Some n \<Rightarrow> n | None \<Rightarrow> 0),
                     version = (if truthy v then the v else ''0.0.0'')\<rparr>))"

text \<open>An error leaves the \<^verbatim>\<open>try\<close> block at once; the entries stored before it stay and
  \<^verbatim>\<open>total\<close> keeps its initial value.\<close>

definition getPatternLibraryStats :: "patternLibrary \<Rightarrow> libraryStats" where
  "getPatternLibraryStats lib =
     (let s0 = \<lparr>universal = emptyEntry, backend = emptyEntry, frontend = emptyEntry, total = 0\<rparr>
      in case readLibrary (universalFile lib) of
           Inl e \<Rightarrow> s0
         | Inr u \<Rightarrow>
            let s1 = (case u of None \<Rightarrow> s0 | Some entry \<Rightarrow> s0\<lparr>universal := entry\<rparr>)
            in case readLibrary (backendFile lib) of
                 Inl e \<Rightarrow> s1
               | Inr b \<Rightarrow>
                  let s2 = (case b of None \<Rightarrow> s1 | Some entry \<Rightarrow> s1\<lparr>backend := entry\<rparr>)
                  in case readLibrary (frontendFile lib) of
                       Inl e \<Rightarrow> s2
                     | Inr f \<Rightarrow>
                        let s3 = (case f of None \<Rightarrow> s2 | Some entry \<Rightarrow> s2\<lparr>frontend := entry\<rparr>)
                        in s3\<lparr>total := count (universal s3) + count (backend s3)
                                         + count (frontend s3)\<rparr>)"

text \<open>The statistics of one pattern. The keys that other records of this theory have too
  carry the prefix \<open>p_\<close>.\<close>

record patternStats =
  p_name :: string
  usage :: nat
  successes :: nat
  failures :: nat
  p_warnings :: nat
  p_confidence :: rat
  p_scope :: string

record patternMetric = patternStats +
  effectiveness :: int
  p_successRate :: int

record patternMetrics =
  patternUsage :: "patternMetric list"
  mostEffective :: "patternMetric list"
  leastEffective :: "patternMetric list"
  libraryStats :: libraryStats
  totalPatterns :: nat
  averageEffectiveness :: int

text \<open>\<^verbatim>\<open>pattern.name || pattern.type || 'unknown'\<close>.\<close>

definition patternKey :: "pattern \<Rightarrow> string" where
  "patternKey p = (case name_or_type p of Some k \<Rightarrow> if k \<noteq> [] then k else ''unknown''
                                          | None \<Rightarrow> ''unknown'')"

text \<open>\<^verbatim>\<open>pattern.confidence || 0\<close>.\<close>

definition confidence_or_0 :: "pattern \<Rightarrow> rat" where
  "confidence_or_0 p = (case confidence p of Some c \<Rightarrow> c | None \<Rightarrow> 0)"

text \<open>The inner \<^verbatim>\<open>forEach\<close>: one use of a pattern by a result of the given status.
  \<^verbatim>\<open>patternStats\<close> is a \<^verbatim>\<open>Map\<close>, an association list in the order of insertion.\<close>

definition countUse :: "string \<Rightarrow> pattern \<Rightarrow> patternStats \<Rightarrow> patternStats" where
  "countUse st p stats =
     (let stats1 = stats\<lparr>usage := usage stats + 1\<rparr>;
          stats2 = (if st = ''success'' then stats1\<lparr>successes := successes stats1 + 1\<rparr>
                    else if st = ''failure'' then stats1\<lparr>failures := failures stats1 + 1\<rparr>
                    else if st = ''warning'' then stats1\<lparr>p_warnings := p_warnings stats1 + 1\<rparr>
                    else stats1)
      in stats2\<lparr>p_confidence :=
           double (double (double (p_confidence stats2 * (of_nat (usage stats2) - 1))
                             + confidence_or_0 p)
                     / of_nat (usage stats2))\<rparr>)"

definition usePattern ::
  "string \<Rightarrow> (string \<times> patternStats) list \<Rightarrow> pattern \<Rightarrow> (string \<times> patternStats) list" where
  "usePattern st patternStats p =
     (let key = patternKey p;
          stats0 = (if key \<in> set (map fst patternStats) then patternStats
                    else patternStats @
                      [(key, \<lparr>p_name = key, usage = 0, successes = 0, failures = 0,
                               p_warnings = 0, p_confidence = confidence_or_0 p,
                               p_scope = (if truthy (scope p) then the (scope p)
                                          else ''universal'')\<rparr>)])
      in map (\<lambda>(k, v). if k = key then (k, countUse st p v) else (k, v)) stats0)"

definition useResult ::
  "(string \<times> patternStats) list \<Rightarrow> validationResult \<Rightarrow> (string \<times> patternStats) list" where
  "useResult patternStats result =
     (case patterns result of
        None \<Rightarrow> patternStats
      | Some ps \<Rightarrow> foldl (usePattern (status result)) patternStats ps)"

definition scorePattern :: "patternStats \<Rightarrow> patternMetric" where
  "scorePattern stats =
     (let total = usage stats
      in patternStats.extend stats
           (patternMetric.fields
              (if total > 0
               then Math_round (double (double ((of_nat (successes stats)
                                                   + (of_nat (p_warnings stats) * (1 / 2)))
                                                  / of_nat total) * 100))
               else 0)
              (if total > 0
               then Math_round (double (double (of_nat (successes stats) / of_nat total) * 100))
               else 0)))"

text \<open>\<^verbatim>\<open>sort\<close> sorts \<^verbatim>\<open>patternMetrics\<close> in place, so the second sort starts from the result
  of the first, and the filter from the result of the second.\<close>

definition calculatePatternMetrics :: "patternLibrary \<Rightarrow> validationResult list \<Rightarrow> patternMetrics" where
  "calculatePatternMetrics lib results =
     (let patternStats = foldl useResult [] results;
          patternMetrics = map (\<lambda>(k, stats). scorePattern stats) patternStats;
          libraryStats = getPatternLibraryStats lib;
          byUsage = sort_key (\<lambda>p. - int (usage p)) patternMetrics;
          byEffectiveness = sort_key (\<lambda>p. - effectiveness p) byUsage
      in \<lparr>patternUsage = take 20 byUsage,
          mostEffective = take 10 byEffectiveness,
          leastEffective =
            take 5 (sort_key effectiveness (filter (\<lambda>p. usage p \<ge> 3) byEffectiveness)),
          libraryStats = libraryStats,
          totalPatterns = length patternMetrics,
          averageEffectiveness =
            (if length patternMetrics > 0
             then Math_round (of_int (sum_list (map effectiveness patternMetrics))
                                / of_nat (length patternMetrics))
             else 0)\<rparr>)"

subsection \<open>\<^verbatim>\<open>calculateQualityMetrics\<close> and the cache\<close>

text \<open>The snapshot. The keys that other records of this theory have too carry the prefix
  \<open>s_\<close>; \<^verbatim>\<open>timestamp\<close> is the instant whose ISO string the source stores.\<close>

record metricsSnapshot =
  overview :: overviewMetrics
  trends :: "trendEntry list"
  s_patterns :: patternMetrics
  performance :: performanceMetrics
  health :: healthMetrics
  comparative :: comparativeMetrics
  s_timestamp :: int
  s_project :: "string option"
  s_timeframe :: int

record cacheEntry =
  data :: metricsSnapshot
  cachedAt :: int

text \<open>\<^verbatim>\<open>this.metricsCache\<close>, a \<^verbatim>\<open>Map\<close> from cache keys to entries (the key \<^verbatim>\<open>timestamp\<close>
  of an entry is \<^const>\<open>cachedAt\<close> here), and \<^verbatim>\<open>this.cacheTimeout\<close>, set by the
  constructor.\<close>

type_synonym metricsCache = "string \<rightharpoonup> cacheEntry"

definition cacheTimeout :: int where
  "cacheTimeout = 5 * 60 * 1000"

fun errorMessage :: "error \<Rightarrow> string" where
  "errorMessage (Error m) = m"

definition cacheKey :: "string option \<Rightarrow> int \<Rightarrow> string" where
  "cacheKey projectName timeframe =
     ''quality-'' @ (if truthy projectName then the projectName else ''global'')
       @ ''-'' @ Number_toString timeframe"

text \<open>The \<^verbatim>\<open>try\<close> block: what it returns or throws. The load is awaited first; of the
  calculators that follow only \<^verbatim>\<open>calculateTrendMetrics\<close> can throw.\<close>

definition computeMetrics ::
  "resultStore \<Rightarrow> patternLibrary \<Rightarrow> int \<Rightarrow> string option \<Rightarrow> int \<Rightarrow> error + metricsSnapshot" where
  "computeMetrics store lib now projectName timeframe =
     (let cutoffDate = new_Date (now - timeframe * dayMs)
      in case loadValidationResults store projectName cutoffDate of
           Inl e \<Rightarrow> Inl e
         | Inr validationResults \<Rightarrow>
            (case calculateTrendMetrics_throws now timeframe of
               Some e \<Rightarrow> Inl e
             | None \<Rightarrow>
                (case calculateComparativeMetrics store now validationResults projectName of
                   Inl e \<Rightarrow> Inl e
                 | Inr comparativeMetrics \<Rightarrow>
                    Inr \<lparr>overview = calculateOverviewMetrics now validationResults,
                         trends = calculateTrendMetrics now validationResults timeframe,
                         s_patterns = calculatePatternMetrics lib validationResults,
                         performance = calculatePerformanceMetrics validationResults,
                         health = calculateHealthMetrics now validationResults,
                         comparative = comparativeMetrics,
                         s_timestamp = now,
                         s_project = projectName,
                         s_timeframe = timeframe\<rparr>)))"

text \<open>The method, with the cache as the state it reads and writes: the result and the cache
  after the call.\<close>

definition calculateQualityMetrics ::
  "resultStore \<Rightarrow> patternLibrary \<Rightarrow> int \<Rightarrow> string option \<Rightarrow> int \<Rightarrow> metricsCache
     \<Rightarrow> (error + metricsSnapshot) \<times> metricsCache" where
  "calculateQualityMetrics store lib now projectName timeframe metricsCache =
     (let key = cacheKey projectName timeframe;
          hit = (case metricsCache key of
                   Some cached \<Rightarrow>
                     if now - cachedAt cached < cacheTimeout then Some (data cached) else None
                 | None \<Rightarrow> None)
      in case hit of
           Some d \<Rightarrow> (Inr d, metricsCache)
         | None \<Rightarrow>
            (case computeMetrics store lib now projectName timeframe of
               Inr metrics \<Rightarrow>
                 (Inr metrics, metricsCache(key \<mapsto> \<lparr>data = metrics, cachedAt = now\<rparr>))
             | Inl e \<Rightarrow>
                 (Inl (Error (''Failed to calculate quality metrics: '' @ errorMessage e)),
                  metricsCache)))"

subsection \<open>Notions used to state the properties\<close>

text \<open>Reclassifying the record at position \<open>i\<close>: the same records, that one with a new
  status.\<close>

definition reclassify :: "validationResult list \<Rightarrow> nat \<Rightarrow> string \<Rightarrow> validationResult list" where
  "reclassify results i s = results[i := (results ! i)\<lparr>status := s\<rparr>]"

text \<open>The records of a period, selected by the \<^verbatim>\<open>dateRange\<close> of its trend entry.\<close>

definition recordsIn :: "dateRange \<Rightarrow> validationResult list \<Rightarrow> validationResult list" where
  "recordsIn d results =
     filter (\<lambda>r. start d \<le> timestamp r \<and> timestamp r < end' d) results"

text \<open>A record with a project, a timestamp and a status and no other key, for examples.\<close>

definition plainResult :: "string \<Rightarrow> int \<Rightarrow> string \<Rightarrow> validationResult" where
  "plainResult p t s =
     \<lparr>project = Some p, timestamp = t, status = s, executionTime = None, testCount = None,
      totalTests = None, patterns = None\<rparr>"






definition jsonFile :: "string \<Rightarrow> validationResult \<Rightarrow> dirent" where
  "jsonFile n r =
     \<lparr>fileName = n, readJson = Inr \<lparr>timestampKey = Some (timestamp r), object = r\<rparr>,
      stat_mtime = Inr (timestamp r)\<rparr>"

definition directory :: "dirent list \<Rightarrow> resultStore" where
  "directory files = \<lparr>ensureDir = None, readdir = Inr files\<rparr>"

definition unreadableStore :: resultStore where
  "unreadableStore =
     \<lparr>ensureDir = Some (Error ''EACCES: permission denied''), readdir = Inr []\<rparr>"

definition noLibrary :: patternLibrary where
  "noLibrary = \<lparr>universalFile = Missing, backendFile = Missing, frontendFile = Missing\<rparr>"

text \<open>A store with five records of project alpha and four of project beta.\<close>

definition alphaBeta :: resultStore where
  "alphaBeta = directory
     [jsonFile ''a1.json'' (plainResult ''alpha'' 1 ''success''),
      jsonFile ''a2.json'' (plainResult ''alpha'' 2 ''success''),
      jsonFile ''a3.json'' (plainResult ''alpha'' 3 ''failure''),
      jsonFile ''a4.json'' (plainResult ''alpha'' 4 ''success''),
      jsonFile ''a5.json'' (plainResult ''alpha'' 5 ''success''),
      jsonFile ''b1.json'' (plainResult ''beta'' 6 ''success''),
      jsonFile ''b2.json'' (plainResult ''beta'' 7 ''success''),
      jsonFile ''b3.json'' (plainResult ''beta'' 8 ''success''),
      jsonFile ''b4.json'' (plainResult ''beta'' 9 ''success'')]"


section \<open>Properties\<close>

subsection \<open>Rounding\<close>

lemma Math_round_upper: "of_int (Math_round x) \<le> x + 1 / 2"
  unfolding Math_round_def by linarith

lemma Math_round_lower: "x - 1 / 2 < of_int (Math_round x)"
  unfolding Math_round_def by linarith

lemma Math_round_mono: "x \<le> y \<Longrightarrow> Math_round x \<le> Math_round y"
  unfolding Math_round_def by (simp add: floor_mono)

subsection \<open>Doubles\<close>

lemma round_even_cases:
  "round_even s = \<lfloor>s\<rfloor> \<or> round_even s = \<lfloor>s\<rfloor> + 1"
  by (simp add: round_even_def Let_def)

lemma round_even_error: "\<bar>of_int (round_even s) - s\<bar> \<le> 1 / 2"
proof -
  have "of_int \<lfloor>s\<rfloor> \<le> s" "s < of_int \<lfloor>s\<rfloor> + 1" by linarith+
  then show ?thesis
    by (auto simp: round_even_def Let_def abs_le_iff)
qed

lemma round_even_of_int [simp]: "round_even (of_int k) = k"
  by (simp add: round_even_def)

lemma round_even_mono:
  assumes "s \<le> t"
  shows "round_even s \<le> round_even t"
proof (cases "\<lfloor>s\<rfloor> < \<lfloor>t\<rfloor>")
  case True
  have "round_even s \<le> \<lfloor>s\<rfloor> + 1" using round_even_cases [of s] by auto
  moreover have "\<lfloor>t\<rfloor> \<le> round_even t" using round_even_cases [of t] by auto
  ultimately show ?thesis using True by simp
next
  case False
  with floor_mono [OF assms] have eq: "\<lfloor>s\<rfloor> = \<lfloor>t\<rfloor>" by simp
  with assms have "s - of_int \<lfloor>s\<rfloor> \<le> t - of_int \<lfloor>t\<rfloor>" by simp
  then show ?thesis
    unfolding round_even_def Let_def eq by auto
qed

lemma two_powi_pos [simp]: "(0 :: rat) < 2 powi k"
  by simp

lemma quotient_pos:
  assumes "0 < x"
  shows "0 < fst (quotient_of x)" "0 < snd (quotient_of x)"
    "x = of_int (fst (quotient_of x)) / of_int (snd (quotient_of x))"
proof -
  obtain n d where q: "quotient_of x = (n, d)" by (cases "quotient_of x")
  from quotient_of_denom_pos [OF q] have d: "0 < d" .
  from quotient_of_div [OF q] have x: "x = of_int n / of_int d" .
  with assms d have "0 < n" by (simp add: zero_less_divide_iff)
  with q d x show "0 < fst (quotient_of x)" "0 < snd (quotient_of x)"
    "x = of_int (fst (quotient_of x)) / of_int (snd (quotient_of x))" by simp_all
qed

lemma bitlen_powi:
  assumes "0 < n"
  shows "(2 :: rat) powi (bitlen n - 1) \<le> of_int n" "(of_int n :: rat) < 2 powi bitlen n"
proof -
  from bitlen_bounds [OF assms] have b: "2 ^ nat (bitlen n - 1) \<le> n" "n < 2 ^ nat (bitlen n)"
    by simp_all
  have pos: "0 < bitlen n" using assms bitlen_eq_zero_iff [of n] bitlen_nonneg [of n] by simp
  have "(2 :: rat) powi (bitlen n - 1) = of_int (2 ^ nat (bitlen n - 1))"
    using pos by (simp add: power_int_def)
  also have "\<dots> \<le> of_int n" using b(1) by (simp only: of_int_le_iff)
  finally show "(2 :: rat) powi (bitlen n - 1) \<le> of_int n" .
  have "(of_int n :: rat) < of_int (2 ^ nat (bitlen n))" using b(2) by (simp only: of_int_less_iff)
  also have "\<dots> = 2 powi bitlen n" using pos by (simp add: power_int_def)
  finally show "(of_int n :: rat) < 2 powi bitlen n" .
qed

lemma binade_bounds:
  assumes "0 < x"
  shows "2 powi binade x \<le> x" "x < 2 powi (binade x + 1)"
proof -
  define n where "n = fst (quotient_of x)"
  define d where "d = snd (quotient_of x)"
  define k where "k = bitlen n - bitlen d"
  have n: "0 < n" and d: "0 < d" and x: "x = of_int n / of_int d"
    using quotient_pos [OF assms] by (simp_all add: n_def d_def)
  note bn = bitlen_powi [OF n] and bd = bitlen_powi [OF d]
  have dpos: "(0 :: rat) < of_int d" using d by simp
  have "(2 :: rat) powi (k - 1) * of_int d \<le> 2 powi (k - 1) * 2 powi bitlen d"
    using bd(2) by (intro mult_left_mono) simp_all
  also have "\<dots> = 2 powi (bitlen n - 1)"
    by (simp add: power_int_add [symmetric] k_def)
  also have "\<dots> \<le> of_int n" by (rule bn(1))
  finally have lo: "(2 :: rat) powi (k - 1) \<le> x"
    unfolding x using dpos by (simp add: pos_le_divide_eq)
  have "(of_int n :: rat) < 2 powi bitlen n" by (rule bn(2))
  also have "\<dots> = 2 powi (k + 1) * 2 powi (bitlen d - 1)"
    by (simp add: power_int_add [symmetric] k_def)
  also have "\<dots> \<le> 2 powi (k + 1) * of_int d"
    using bd(1) by (intro mult_left_mono) simp_all
  finally have hi: "x < 2 powi (k + 1)"
    unfolding x using dpos by (simp add: pos_divide_less_eq)
  have b: "binade x = (if 2 powi k \<le> x then k else k - 1)"
    by (simp add: binade_def Let_def n_def d_def k_def)
  show "2 powi binade x \<le> x"
    using lo by (simp add: b)
  show "x < 2 powi (binade x + 1)"
    using hi by (auto simp: b not_le)
qed

text \<open>Two positive numbers in order have their binades in order.\<close>

lemma binade_mono:
  assumes "0 < x" "x \<le> y"
  shows "binade x \<le> binade y"
proof (rule ccontr)
  assume "\<not> binade x \<le> binade y"
  then have "binade y + 1 \<le> binade x" by simp
  then have "(2 :: rat) powi (binade y + 1) \<le> 2 powi binade x"
    by (intro power_int_increasing) simp_all
  also have "\<dots> \<le> x" using binade_bounds(1) [OF assms(1)] .
  finally show False using binade_bounds(2) [of y] assms by simp
qed

lemma double_pos_eq:
  "0 < x \<Longrightarrow> double x = of_int (round_even (x * 2 powi (52 - binade x))) * 2 powi (binade x - 52)"
  by (simp add: double_def Let_def)

lemma double_minus: "double (- x) = - double x"
  by (simp add: double_def Let_def sgn_minus)

lemma double_zero [simp]: "double 0 = 0"
  by (simp add: double_def)

text \<open>The scaled value of a positive number lies between \<open>2^52\<close> and \<open>2^53\<close>, and so does
  its rounding.\<close>

lemma scaled_bounds:
  assumes "0 < x"
  shows "2 ^ 52 \<le> x * 2 powi (52 - binade x)" "x * 2 powi (52 - binade x) \<le> 2 ^ 53"
proof -
  have "(2 :: rat) ^ 52 = 2 powi binade x * 2 powi (52 - binade x)"
    by (simp add: power_int_add [symmetric])
  also have "\<dots> \<le> x * 2 powi (52 - binade x)"
    using binade_bounds(1) [OF assms] by (intro mult_right_mono) simp_all
  finally show "2 ^ 52 \<le> x * 2 powi (52 - binade x)" .
  have "x * 2 powi (52 - binade x) \<le> 2 powi (binade x + 1) * 2 powi (52 - binade x)"
    using binade_bounds(2) [OF assms] by (intro mult_right_mono) simp_all
  also have "\<dots> = 2 ^ 53"
    by (simp add: power_int_add [symmetric])
  finally show "x * 2 powi (52 - binade x) \<le> 2 ^ 53" .
qed

lemma mantissa_bounds:
  assumes "0 < x"
  shows "2 ^ 52 \<le> round_even (x * 2 powi (52 - binade x))"
    "round_even (x * 2 powi (52 - binade x)) \<le> 2 ^ 53"
proof -
  from round_even_mono [OF scaled_bounds(1) [OF assms]]
  have "round_even (of_int (2 ^ 52)) \<le> round_even (x * 2 powi (52 - binade x))" by simp
  then show "2 ^ 52 \<le> round_even (x * 2 powi (52 - binade x))"
    by (simp only: round_even_of_int)
  from round_even_mono [OF scaled_bounds(2) [OF assms]]
  have "round_even (x * 2 powi (52 - binade x)) \<le> round_even (of_int (2 ^ 53))" by simp
  then show "round_even (x * 2 powi (52 - binade x)) \<le> 2 ^ 53"
    by (simp only: round_even_of_int)
qed

lemma unscale:
  "(2 :: rat) ^ 52 * 2 powi (e - 52) = 2 powi e"
  "(2 :: rat) ^ 53 * 2 powi (e - 52) = 2 powi (e + 1)"
proof -
  have a: "(2 :: rat) powi (52 + (e - 52)) = 2 powi 52 * 2 powi (e - 52)"
    by (rule power_int_add) simp
  have b: "52 + (e - 52) = e" by simp
  have c: "(2 :: rat) powi 52 = 2 ^ 52" by (simp add: power_int_def)
  show "(2 :: rat) ^ 52 * 2 powi (e - 52) = 2 powi e"
    using a [unfolded b c] by (rule sym)
  have a': "(2 :: rat) powi (53 + (e - 52)) = 2 powi 53 * 2 powi (e - 52)"
    by (rule power_int_add) simp
  have b': "53 + (e - 52) = e + 1" by simp
  have c': "(2 :: rat) powi 53 = 2 ^ 53" by (simp add: power_int_def)
  show "(2 :: rat) ^ 53 * 2 powi (e - 52) = 2 powi (e + 1)"
    using a' [unfolded b' c'] by (rule sym)
qed

lemma double_pos_bounds:
  assumes "0 < x"
  shows "2 powi binade x \<le> double x" "double x \<le> 2 powi (binade x + 1)"
proof -
  let ?m = "round_even (x * 2 powi (52 - binade x))"
  have m: "(2 :: rat) ^ 52 \<le> of_int ?m" "(of_int ?m :: rat) \<le> 2 ^ 53"
    using mantissa_bounds [OF assms] by (simp_all only: of_int_le_iff [symmetric, where ?'a = rat] of_int_power of_int_numeral)
  have "(2 :: rat) powi binade x = 2 ^ 52 * 2 powi (binade x - 52)"
    by (simp only: unscale)
  also have "\<dots> \<le> of_int ?m * 2 powi (binade x - 52)"
    using m(1) by (intro mult_right_mono) simp_all
  finally show "2 powi binade x \<le> double x" by (simp only: double_pos_eq [OF assms])
  have "of_int ?m * 2 powi (binade x - 52) \<le> (2 :: rat) ^ 53 * 2 powi (binade x - 52)"
    using m(2) by (intro mult_right_mono) simp_all
  also have "\<dots> = 2 powi (binade x + 1)"
    by (simp only: unscale)
  finally show "double x \<le> 2 powi (binade x + 1)" by (simp only: double_pos_eq [OF assms])
qed

lemma double_pos: "0 < x \<Longrightarrow> 0 < double x"
  using double_pos_bounds(1) [of x] two_powi_pos [of "binade x"] by linarith

lemma double_mono_pos:
  assumes "0 < x" "x \<le> y"
  shows "double x \<le> double y"
proof (cases "binade x = binade y")
  case True
  have y: "0 < y" using assms by simp
  have "x * 2 powi (52 - binade y) \<le> y * 2 powi (52 - binade y)"
    using assms(2) by (intro mult_right_mono) simp_all
  then have "round_even (x * 2 powi (52 - binade y)) \<le> round_even (y * 2 powi (52 - binade y))"
    by (rule round_even_mono)
  then have "(of_int (round_even (x * 2 powi (52 - binade y))) :: rat) * 2 powi (binade y - 52)
      \<le> of_int (round_even (y * 2 powi (52 - binade y))) * 2 powi (binade y - 52)"
    by (intro mult_right_mono) (simp_all only: of_int_le_iff two_powi_pos less_imp_le)
  then show ?thesis
    by (simp add: double_pos_eq [OF assms(1)] double_pos_eq [OF y] True)
next
  case False
  have y: "0 < y" using assms by simp
  from False binade_mono [OF assms] have "binade x + 1 \<le> binade y" by simp
  then have "(2 :: rat) powi (binade x + 1) \<le> 2 powi binade y"
    by (intro power_int_increasing) simp_all
  with double_pos_bounds(2) [OF assms(1)] double_pos_bounds(1) [OF y] show ?thesis by linarith
qed

lemma double_mono:
  assumes "x \<le> y"
  shows "double x \<le> double y"
proof -
  consider "0 < x" | "x \<le> 0" "0 < y" | "x < 0" "y = 0" | "x = 0" "y = 0" | "y < 0"
    using assms by linarith
  then show ?thesis
  proof cases
    case 1
    then show ?thesis using assms by (rule double_mono_pos)
  next
    case 2
    have "double x \<le> 0"
    proof (cases "x = 0")
      case True then show ?thesis by simp
    next
      case False
      with 2 have "0 < - x" by simp
      from double_pos [OF this] show ?thesis by (simp add: double_minus)
    qed
    with double_pos [OF 2(2)] show ?thesis by simp
  next
    case 3
    then have "0 < - x" by simp
    from double_pos [OF this] 3 show ?thesis by (simp add: double_minus)
  next
    case 4
    then show ?thesis by simp
  next
    case 5
    then have "0 < - y" "- y \<le> - x" using assms by simp_all
    from double_mono_pos [OF this] show ?thesis by (simp add: double_minus)
  qed
qed

lemma double_error_pos:
  assumes "0 < x"
  shows "\<bar>double x - x\<bar> \<le> x / 2 ^ 53"
proof -
  let ?e = "binade x"
  let ?s = "x * 2 powi (52 - ?e)"
  have sx: "?s * 2 powi (?e - 52) = x"
    by (simp add: mult.assoc power_int_add [symmetric])
  have "double x - x = (of_int (round_even ?s) - ?s) * 2 powi (?e - 52)"
    by (simp add: double_pos_eq [OF assms] left_diff_distrib sx)
  then have "\<bar>double x - x\<bar> = \<bar>of_int (round_even ?s) - ?s\<bar> * 2 powi (?e - 52)"
    by (simp add: abs_mult)
  also have "\<dots> \<le> (1 / 2) * 2 powi (?e - 52)"
    using round_even_error [of ?s] by (intro mult_right_mono) simp_all
  also have "\<dots> = 2 powi ?e / 2 ^ 53"
    by (simp add: power_int_diff)
  also have "\<dots> \<le> x / 2 ^ 53"
    using binade_bounds(1) [OF assms] by (intro divide_right_mono) simp_all
  finally show ?thesis .
qed

lemma double_error: "\<bar>double x - x\<bar> \<le> \<bar>x\<bar> / 2 ^ 53"
proof -
  consider "0 < x" | "x = 0" | "x < 0" by linarith
  then show ?thesis
  proof cases
    case 1
    then show ?thesis using double_error_pos [OF 1] by simp
  next
    case 2
    then show ?thesis by simp
  next
    case 3
    then have "0 < - x" by simp
    from double_error_pos [OF this] 3 show ?thesis
      by (simp add: double_minus abs_minus_commute)
  qed
qed

text \<open>A multiple of a half below \<open>2^52\<close> is a double.\<close>

lemma double_half_pos:
  assumes "0 < j" "j < 2 ^ 53"
  shows "double (of_int j / 2) = of_int j / 2"
proof -
  let ?h = "(of_int j / 2 :: rat)"
  have h: "0 < ?h" using assms by simp
  let ?e = "binade ?h"
  have e: "?e \<le> 51"
  proof (rule ccontr)
    assume "\<not> ?e \<le> 51"
    then have "52 \<le> ?e" by simp
    then have "(2 :: rat) powi 52 \<le> 2 powi ?e" by (intro power_int_increasing) simp_all
    also have "\<dots> \<le> ?h" using binade_bounds(1) [OF h] .
    finally have "(2 :: rat) ^ 52 \<le> ?h" by (simp add: power_int_def)
    then have "(of_int (2 ^ 53) :: rat) \<le> of_int j" by simp
    then have "2 ^ 53 \<le> j" by (simp only: of_int_le_iff)
    with assms show False by simp
  qed
  define k where "k = j * 2 ^ nat (51 - ?e)"
  have p: "(2 :: rat) powi (52 - ?e) = 2 * of_int (2 ^ nat (51 - ?e))"
  proof -
    have "(2 :: rat) powi (1 + (51 - ?e)) = 2 powi 1 * 2 powi (51 - ?e)"
      by (rule power_int_add) simp
    moreover have "1 + (51 - ?e) = 52 - ?e" by simp
    moreover have "(2 :: rat) powi (51 - ?e) = of_int (2 ^ nat (51 - ?e))"
      using e by (simp add: power_int_def)
    ultimately show ?thesis by simp
  qed
  have s: "?h * 2 powi (52 - ?e) = of_int k"
    unfolding p k_def by simp
  have "double ?h = of_int (round_even (?h * 2 powi (52 - ?e))) * 2 powi (?e - 52)"
    by (rule double_pos_eq [OF h])
  also have "\<dots> = (?h * 2 powi (52 - ?e)) * 2 powi (?e - 52)"
    unfolding s by simp
  also have "\<dots> = ?h * (2 powi (52 - ?e) * 2 powi (?e - 52))" by (simp only: mult.assoc)
  also have "2 powi (52 - ?e) * 2 powi (?e - 52) = (1 :: rat)"
    by (simp add: power_int_add [symmetric])
  finally show ?thesis by simp
qed

lemma double_half:
  assumes "\<bar>j\<bar> < 2 ^ 53"
  shows "double (of_int j / 2) = of_int j / 2"
proof -
  consider "0 < j" | "j = 0" | "j < 0" by linarith
  then show ?thesis
  proof cases
    case 1
    with assms show ?thesis by (intro double_half_pos) simp_all
  next
    case 2
    then show ?thesis by simp
  next
    case 3
    with assms have "double (of_int (- j) / 2) = of_int (- j) / 2"
      by (intro double_half_pos) simp_all
    then have "double (- (of_int j / 2)) = - (of_int j / 2)" by simp
    then show ?thesis by (simp only: double_minus neg_equal_iff_equal)
  qed
qed

text \<open>\<^verbatim>\<open>Math.round(a / n)\<close> for integers, the numerator below \<open>2^52\<close>: the double quotient
  rounds to the same integer as the exact one.\<close>

lemma Math_round_double_quotient:
  assumes "\<bar>a\<bar> < 2 ^ 52" and "0 < n"
  shows "Math_round (double (of_int a / of_int n)) = Math_round (of_int a / of_int n)"
proof -
  let ?x = "(of_int a / of_int n :: rat)"
  define k where "k = Math_round ?x"
  have npos: "(0 :: rat) < of_int n" using assms(2) by simp
  have n1: "(1 :: rat) \<le> of_int n" using assms(2) by simp
  have absx: "\<bar>?x\<bar> \<le> of_int \<bar>a\<bar>"
  proof -
    have "\<bar>?x\<bar> = of_int \<bar>a\<bar> / of_int n" using npos by simp
    also have "\<dots> \<le> of_int \<bar>a\<bar> / 1" using n1 by (intro divide_left_mono) simp_all
    finally show ?thesis by simp
  qed
  have "(of_int \<bar>a\<bar> :: rat) \<le> of_int (2 ^ 52 - 1)"
    using assms(1) by (simp only: of_int_le_iff)
  with absx have xb: "\<bar>?x\<bar> \<le> 4503599627370495" by simp
  have lo: "of_int k - 1 / 2 \<le> ?x" and hi: "?x < of_int k + 1 / 2"
    unfolding k_def Math_round_def by linarith+
  have "(of_int k :: rat) < 4503599627370496" using xb lo by linarith
  moreover have "- 4503599627370496 < (of_int k :: rat)" using xb hi by linarith
  ultimately have kb: "k < 2 ^ 52" "- (2 ^ 52) < k" by simp_all
  have el: "(of_int (2 * k - 1) :: rat) / 2 = of_int k - 1 / 2"
    by (simp add: diff_divide_distrib)
  have hl: "double (of_int (2 * k - 1) / 2) = of_int (2 * k - 1) / 2"
    using kb by (intro double_half) simp
  then have hl': "double (of_int k - 1 / 2) = of_int k - 1 / 2" by (simp only: el)
  from double_mono [OF lo] have dlo: "of_int k - 1 / 2 \<le> double ?x"
    by (simp only: hl')
  have err: "\<bar>double ?x - ?x\<bar> < 1 / (2 * of_int n)"
  proof -
    have "\<bar>double ?x - ?x\<bar> \<le> \<bar>?x\<bar> / 2 ^ 53" by (rule double_error)
    also have "\<dots> = of_int \<bar>a\<bar> / (of_int n * 2 ^ 53)" using npos by simp
    also have "\<dots> < 2 ^ 52 / (of_int n * 2 ^ 53)"
    proof -
      have "(of_int \<bar>a\<bar> :: rat) < of_int (2 ^ 52)" using assms(1) by (simp only: of_int_less_iff)
      then show ?thesis using npos by (intro divide_strict_right_mono) simp_all
    qed
    also have "\<dots> = 1 / (2 * of_int n)" by simp
    finally show ?thesis .
  qed
  have gap: "1 / (2 * of_int n) \<le> of_int k + 1 / 2 - ?x"
  proof -
    have "0 < (of_int k + 1 / 2 - ?x) * (2 * of_int n)"
      using hi npos by simp
    also have "(of_int k + 1 / 2 - ?x) * (2 * of_int n) = (of_int (2 * k * n + n - 2 * a) :: rat)"
      using npos by (simp add: field_simps)
    finally have "0 < 2 * k * n + n - 2 * a" by (simp only: of_int_0_less_iff)
    then have "1 \<le> 2 * k * n + n - 2 * a" by simp
    then have "(1 :: rat) \<le> of_int (2 * k * n + n - 2 * a)" by (simp only: of_int_1_le_iff)
    also have "\<dots> = (of_int k + 1 / 2 - ?x) * (2 * of_int n)"
      using npos by (simp add: field_simps)
    finally show ?thesis using npos by (simp add: pos_divide_le_eq)
  qed
  from err gap have dhi: "double ?x < of_int k + 1 / 2" by linarith
  from dlo dhi have "Math_round (double ?x) = k"
    unfolding Math_round_def by linarith
  then show ?thesis by (simp add: k_def)
qed

text \<open>The percentage \<^verbatim>\<open>(x / total) * 100\<close> in doubles: it grows with \<open>x\<close>, and for a share
  \<open>p\<close> between 0 and 1 it is within \<open>1/12\<close> of \<open>100 p\<close> (within \<open>300 / 2^53\<close>, in fact).\<close>

lemma percent_mono:
  assumes "(0 :: rat) \<le> t" and "x \<le> y"
  shows "Math_round (double (double (x / t) * 100)) \<le> Math_round (double (double (y / t) * 100))"
proof -
  have "x / t \<le> y / t" using assms by (rule_tac divide_right_mono)
  then have "double (x / t) \<le> double (y / t)" by (rule double_mono)
  then have "double (x / t) * 100 \<le> double (y / t) * 100" by simp
  then have "double (double (x / t) * 100) \<le> double (double (y / t) * 100)" by (rule double_mono)
  then show ?thesis by (rule Math_round_mono)
qed

lemma percent_error:
  assumes "0 \<le> p" "p \<le> 1"
  shows "\<bar>double (double p * 100) - p * 100\<bar> \<le> 1 / 12"
proof -
  have "\<bar>double p - p\<bar> \<le> \<bar>p\<bar> / 2 ^ 53" by (rule double_error)
  also have "\<dots> \<le> 1 / 2 ^ 53" using assms by (intro divide_right_mono) simp_all
  finally have q: "\<bar>double p - p\<bar> \<le> 1 / 9007199254740992" by simp
  with assms have "\<bar>double p * 100\<bar> \<le> 200" by linarith
  have "\<bar>double (double p * 100) - double p * 100\<bar> \<le> \<bar>double p * 100\<bar> / 2 ^ 53"
    by (rule double_error)
  also have "\<dots> \<le> 200 / 2 ^ 53"
    using \<open>\<bar>double p * 100\<bar> \<le> 200\<close> by (intro divide_right_mono) simp_all
  finally have r: "\<bar>double (double p * 100) - double p * 100\<bar> \<le> 200 / 9007199254740992"
    by simp
  from q r show ?thesis by linarith
qed

text \<open>Three numbers that add up to 100 within a quarter, each rounded: the sum of the three
  integers is 99, 100 or 101.\<close>

lemma three_rounds:
  fixes a b c :: rat
  assumes "\<bar>a + b + c - 100\<bar> \<le> 1 / 4"
  shows "\<bar>Math_round a + Math_round b + Math_round c - 100\<bar> \<le> 1"
proof -
  let ?s = "Math_round a + Math_round b + Math_round c"
  have up: "(of_int ?s :: rat) \<le> 100 + 1 / 4 + 3 / 2"
    using Math_round_upper [of a] Math_round_upper [of b] Math_round_upper [of c] assms
    unfolding of_int_add by linarith
  have lo: "(100 :: rat) - 1 / 4 - 3 / 2 < of_int ?s"
    using Math_round_lower [of a] Math_round_lower [of b] Math_round_lower [of c] assms
    unfolding of_int_add by linarith
  have "(of_int ?s :: rat) < of_int 102" using up by simp
  then have u: "?s < 102" by (simp only: of_int_less_iff)
  have "(of_int 98 :: rat) < of_int ?s" using lo by simp
  then have l: "98 < ?s" by (simp only: of_int_less_iff)
  from u l show ?thesis by simp
qed

subsection \<open>Counting records by status\<close>

lemma count_partition3:
  assumes "a \<noteq> b" "a \<noteq> c" "b \<noteq> c"
    and "\<forall>x \<in> set xs. f x = a \<or> f x = b \<or> f x = c"
  shows "length (filter (\<lambda>x. f x = a) xs) + length (filter (\<lambda>x. f x = b) xs)
           + length (filter (\<lambda>x. f x = c) xs) = length xs"
  using assms by (induction xs) auto

lemma status_partition:
  assumes "\<forall>r \<in> set results. status r \<in> {''success'', ''failure'', ''warning''}"
  shows "length (filter (\<lambda>r. status r = ''success'') results)
           + length (filter (\<lambda>r. status r = ''failure'') results)
           + length (filter (\<lambda>r. status r = ''warning'') results) = length results"
proof (rule count_partition3)
  show "\<forall>x\<in>set results.
          status x = ''success'' \<or> status x = ''failure'' \<or> status x = ''warning''"
    using assms by blast
qed simp_all

lemma count_list_update:
  "i < length xs \<Longrightarrow>
     length (filter P (xs[i := y])) + (if P (xs ! i) then 1 else 0)
       = length (filter P xs) + (if P y then 1 else 0)"
proof (induction xs arbitrary: i)
  case Nil
  then show ?case by simp
next
  case (Cons x xs)
  show ?case
  proof (cases i)
    case 0
    then show ?thesis by simp
  next
    case (Suc j)
    with Cons.prems have "j < length xs" by simp
    from Cons.IH [OF this] Suc show ?thesis by simp
  qed
qed

text \<open>Moving one record from status \<open>a\<close> to status \<open>b\<close> adds one to the count of \<open>b\<close>,
  takes one from the count of \<open>a\<close> and leaves every other count.\<close>

lemma count_reclassify:
  assumes "i < length results" and "status (results ! i) = a" and "a \<noteq> b"
  shows "length (filter (\<lambda>r. status r = b) (reclassify results i b))
           = Suc (length (filter (\<lambda>r. status r = b) results))"
    and "length (filter (\<lambda>r. status r = a) results)
           = Suc (length (filter (\<lambda>r. status r = a) (reclassify results i b)))"
    and "c \<noteq> a \<Longrightarrow> c \<noteq> b \<Longrightarrow>
           length (filter (\<lambda>r. status r = c) (reclassify results i b))
             = length (filter (\<lambda>r. status r = c) results)"
  using count_list_update [OF assms(1), of "\<lambda>r. status r = b" "(results ! i)\<lparr>status := b\<rparr>"]
        count_list_update [OF assms(1), of "\<lambda>r. status r = a" "(results ! i)\<lparr>status := b\<rparr>"]
        count_list_update [OF assms(1), of "\<lambda>r. status r = c" "(results ! i)\<lparr>status := b\<rparr>"]
        assms(2,3)
  by (auto simp: reclassify_def)

subsection \<open>The overview\<close>

lemma qualityScore_eq:
  "results \<noteq> [] \<Longrightarrow> qualityScore (calculateOverviewMetrics now results) =
     Math_round (double (double ((of_nat (length (filter (\<lambda>r. status r = ''success'') results))
        + of_nat (length (filter (\<lambda>r. status r = ''warning'') results)) * (1 / 2))
          / of_nat (length results)) * 100))"
  by (simp add: calculateOverviewMetrics_def Let_def)

lemma breakdown_overview:
  "breakdown (calculateOverviewMetrics now results) = None \<longleftrightarrow> results = []"
  by (simp add: calculateOverviewMetrics_def Let_def)

text \<open>The rounding of doubles shows in the result: of 40 records with 23 successes and 17
  failures the exact success rate is 57.5, the double product is just below it, and the
  rates are 57, 43 and 0 with the quality score 57.\<close>

lemma overview_of_23_in_40:
  "(let m = calculateOverviewMetrics 0
              (replicate 23 (plainResult ''p'' 0 ''success'')
                 @ replicate 17 (plainResult ''p'' 0 ''failure''))
    in (successRate m, failureRate m, warningRate m, qualityScore m)) = (57, 43, 0, 57)"
  by code_simp

text \<open>
  \<^bold>\<open>C6.\<close> For every non-empty record set whose statuses all lie in success, failure and
  warning, the three rates of the overview, each rounded on its own, add up to 99, 100 or
  101.
\<close>

theorem overview_rates_sum:
  assumes "results \<noteq> []"
    and "\<forall>r \<in> set results. status r \<in> {''success'', ''failure'', ''warning''}"
  shows "\<bar>successRate (calculateOverviewMetrics now results)
          + failureRate (calculateOverviewMetrics now results)
          + warningRate (calculateOverviewMetrics now results) - 100\<bar> \<le> 1"
proof -
  let ?t = "length results"
  have t: "0 < ?t" using assms(1) by simp
  let ?s = "length (filter (\<lambda>r. status r = ''success'') results)"
  let ?f = "length (filter (\<lambda>r. status r = ''failure'') results)"
  let ?w = "length (filter (\<lambda>r. status r = ''warning'') results)"
  have sum: "?s + ?f + ?w = ?t" using status_partition [OF assms(2)] .
  then have "(of_nat ?s + of_nat ?f + of_nat ?w :: rat) = of_nat ?t"
    by (simp only: of_nat_add [symmetric])
  then have exact: "(of_nat ?s / of_nat ?t) * 100 + (of_nat ?f / of_nat ?t) * 100
      + (of_nat ?w / of_nat ?t) * 100 = (100 :: rat)"
    using t by (simp add: field_simps)
  have share: "0 \<le> (of_nat n :: rat) / of_nat ?t \<and> (of_nat n :: rat) / of_nat ?t \<le> 1"
    if "n \<le> ?t" for n
    using that t by simp
  let ?S = "double (double (of_nat ?s / of_nat ?t) * 100)"
  let ?F = "double (double (of_nat ?f / of_nat ?t) * 100)"
  let ?W = "double (double (of_nat ?w / of_nat ?t) * 100)"
  have "\<bar>?S - (of_nat ?s / of_nat ?t) * 100\<bar> \<le> 1 / 12"
    using share [of ?s] by (intro percent_error) simp_all
  moreover have "\<bar>?F - (of_nat ?f / of_nat ?t) * 100\<bar> \<le> 1 / 12"
    using share [of ?f] by (intro percent_error) simp_all
  moreover have "\<bar>?W - (of_nat ?w / of_nat ?t) * 100\<bar> \<le> 1 / 12"
    using share [of ?w] by (intro percent_error) simp_all
  ultimately have "\<bar>?S + ?F + ?W - 100\<bar> \<le> 1 / 4"
    using exact by linarith
  from three_rounds [OF this] show ?thesis
    using t by (simp add: calculateOverviewMetrics_def Let_def)
qed

text \<open>One record of each status: each rate is 33 and the sum is 99.\<close>

theorem overview_rates_sum_witness:
  "\<bar>successRate (calculateOverviewMetrics 0
        [plainResult ''p'' 0 ''success'', plainResult ''p'' 0 ''failure'',
         plainResult ''p'' 0 ''warning''])
    + failureRate (calculateOverviewMetrics 0
        [plainResult ''p'' 0 ''success'', plainResult ''p'' 0 ''failure'',
         plainResult ''p'' 0 ''warning''])
    + warningRate (calculateOverviewMetrics 0
        [plainResult ''p'' 0 ''success'', plainResult ''p'' 0 ''failure'',
         plainResult ''p'' 0 ''warning'']) - 100\<bar> \<le> 1"
  using overview_rates_sum [of "[plainResult ''p'' 0 ''success'', plainResult ''p'' 0 ''failure'',
         plainResult ''p'' 0 ''warning'']" 0]
  by (simp add: plainResult_def)

text \<open>
  \<^bold>\<open>C7.\<close> For every record set, reclassifying a record with status failure to warning does
  not decrease the quality score of the overview, and reclassifying a record with status
  warning to success does not decrease it either.
\<close>

theorem qualityScore_monotone:
  assumes "i < length results"
  shows "(status (results ! i) = ''failure'' \<longrightarrow>
            qualityScore (calculateOverviewMetrics now results)
              \<le> qualityScore (calculateOverviewMetrics now (reclassify results i ''warning'')))
       \<and> (status (results ! i) = ''warning'' \<longrightarrow>
            qualityScore (calculateOverviewMetrics now results)
              \<le> qualityScore (calculateOverviewMetrics now (reclassify results i ''success'')))"
proof (intro conjI impI)
  have ne1: "results \<noteq> []"
    using assms by (cases results) simp_all
  then have ne2: "\<And>s. reclassify results i s \<noteq> []"
    by (simp add: reclassify_def)
  have len: "\<And>s. length (reclassify results i s) = length results"
    by (simp add: reclassify_def)
  have t: "(0 :: rat) < of_nat (length results)" using ne1 by simp
  {
    assume f: "status (results ! i) = ''failure''"
    have fw: "''failure'' \<noteq> ''warning''" and sf: "''success'' \<noteq> ''failure''"
      and sw: "''success'' \<noteq> ''warning''" by simp_all
    note c = count_reclassify [OF assms f fw]
    show "qualityScore (calculateOverviewMetrics now results)
              \<le> qualityScore (calculateOverviewMetrics now (reclassify results i ''warning''))"
      unfolding qualityScore_eq [OF ne1] qualityScore_eq [OF ne2] len c(1) c(3) [OF sf sw]
      using t by (intro percent_mono) simp_all
  }
  {
    assume w: "status (results ! i) = ''warning''"
    have ws: "''warning'' \<noteq> ''success''" by simp
    note c = count_reclassify [OF assms w ws]
    show "qualityScore (calculateOverviewMetrics now results)
              \<le> qualityScore (calculateOverviewMetrics now (reclassify results i ''success''))"
      unfolding qualityScore_eq [OF ne1] qualityScore_eq [OF ne2] len c(1)
      apply (subst (1) c(2))
      using t by (intro percent_mono) simp_all
  }
qed

text \<open>A failure and a success score 50; with the failure turned into a warning 75; with
  that warning turned into a success 100.\<close>

theorem qualityScore_monotone_witness:
  "qualityScore (calculateOverviewMetrics 0
      [plainResult ''p'' 0 ''failure'', plainResult ''p'' 0 ''success'']) = 50
   \<and> qualityScore (calculateOverviewMetrics 0
        (reclassify [plainResult ''p'' 0 ''failure'', plainResult ''p'' 0 ''success'']
           0 ''warning'')) = 75
   \<and> qualityScore (calculateOverviewMetrics 0
        (reclassify
           (reclassify [plainResult ''p'' 0 ''failure'', plainResult ''p'' 0 ''success'']
              0 ''warning'')
           0 ''success'')) = 100"
  using qualityScore_monotone
          [of 0 "[plainResult ''p'' 0 ''failure'', plainResult ''p'' 0 ''success'']" 0]
        qualityScore_monotone
          [of 0 "reclassify [plainResult ''p'' 0 ''failure'', plainResult ''p'' 0 ''success'']
                   0 ''warning''" 0]
  by code_simp

subsection \<open>No data\<close>

text \<open>
  \<^bold>\<open>C8.\<close> For the empty record set the overview is all zero with the trend stable, and the
  health is unknown with score 0, no indicator and the one recommendation that no data is
  available. Both are values of total functions: neither call throws.
\<close>

theorem empty_record_set:
  "calculateOverviewMetrics now [] =
     \<lparr>totalValidations = 0, successRate = 0, failureRate = 0, warningRate = 0,
      qualityScore = 0, trend = ''stable'', breakdown = None\<rparr>
   \<and> calculateHealthMetrics now [] =
     \<lparr>overall = ''unknown'', score = 0, indicators = [],
      recommendations = [''No validation data available''], lastUpdate = None\<rparr>"
  by (simp add: calculateOverviewMetrics_def calculateHealthMetrics_def)

subsection \<open>The trend entries\<close>

lemma trendEntryAt_breakdown:
  "breakdown (trendEntryAt results now timeframe i)
     = breakdown (calculateOverviewMetrics now (periodResults results now timeframe i))"
  by (simp add: trendEntryAt_def overviewMetrics.defs trendEntry.defs)

lemma trendEntryAt_dateRange:
  "dateRange (trendEntryAt results now timeframe i)
     = \<lparr>start = periodStart now timeframe i, end' = periodEnd now i\<rparr>"
  by (simp add: trendEntryAt_def overviewMetrics.defs trendEntry.defs)

text \<open>Every entry of the loop is the entry of some round.\<close>

lemma trendLoop_entries:
  "b \<in> set (trendLoop results now timeframe i)
     \<Longrightarrow> \<exists>j. b = trendEntryAt results now timeframe j"
proof (induction results now timeframe i rule: trendLoop.induct)
  case (1 results now timeframe i)
  show ?case
  proof (cases "i \<ge> 0")
    case True
    then have "b = trendEntryAt results now timeframe i
        \<or> b \<in> set (trendLoop results now timeframe (i - daysPerPeriod timeframe))"
      using "1.prems" by (subst (asm) trendLoop.simps) simp
    then show ?thesis using "1.IH" [OF True] by blast
  next
    case False
    then show ?thesis using "1.prems" by (subst (asm) trendLoop.simps) simp
  qed
qed

text \<open>
  \<^bold>\<open>C10.\<close> The overview has a \<^verbatim>\<open>breakdown\<close> exactly when the record set is not empty;
  so a trend entry has none exactly when no record lies in its period.
\<close>

theorem breakdown_iff_nonempty:
  "(breakdown (calculateOverviewMetrics now results) \<noteq> None \<longleftrightarrow> results \<noteq> [])
   \<and> (\<forall>b \<in> set (calculateTrendMetrics now results timeframe).
         breakdown b = None \<longleftrightarrow> recordsIn (dateRange b) results = [])"
proof (intro conjI ballI)
  show "breakdown (calculateOverviewMetrics now results) \<noteq> None \<longleftrightarrow> results \<noteq> []"
    by (simp add: breakdown_overview)
next
  fix b assume "b \<in> set (calculateTrendMetrics now results timeframe)"
  then obtain j where b: "b = trendEntryAt results now timeframe j"
    unfolding calculateTrendMetrics_def using trendLoop_entries by blast
  show "breakdown b = None \<longleftrightarrow> recordsIn (dateRange b) results = []"
    unfolding b trendEntryAt_breakdown trendEntryAt_dateRange breakdown_overview
    by (simp add: periodResults_def recordsIn_def)
qed

text \<open>One record, a millisecond old, and a timeframe of one day: the entry of the day before
  has no breakdown, the entry of the last day has one.\<close>

theorem breakdown_iff_nonempty_witness:
  "map breakdown (calculateTrendMetrics 0 [plainResult ''p'' (- 1) ''success''] 1)
     = [None, Some \<lparr>successful = 1, failed = 0, warnings = 0\<rparr>]
   \<and> map (\<lambda>b. recordsIn (dateRange b) [plainResult ''p'' (- 1) ''success''] = [])
        (calculateTrendMetrics 0 [plainResult ''p'' (- 1) ''success''] 1)
     = [True, False]"
  using breakdown_iff_nonempty [of 0 "[plainResult ''p'' (- 1) ''success'']" 1]
  by code_simp

subsection \<open>The number of trend entries\<close>

lemma div_step:
  fixes i d :: int
  assumes "1 \<le> d"
  shows "i div d = (i - d) div d + 1"
proof -
  have "d \<noteq> 0" using assms by simp
  then have "((i - d) + d) div d = (i - d) div d + 1" by (rule div_add_self2)
  then show ?thesis by simp
qed

text \<open>The loop runs once for each multiple of the period width up to \<open>i\<close>.\<close>

lemma trendLoop_length:
  "length (trendLoop results now timeframe i)
     = (if i \<ge> 0 then nat (i div daysPerPeriod timeframe + 1) else 0)"
proof (induction results now timeframe i rule: trendLoop.induct)
  case (1 results now timeframe i)
  let ?d = "daysPerPeriod timeframe"
  have d: "1 \<le> ?d" by (simp add: daysPerPeriod_def)
  show ?case
  proof (cases "i \<ge> 0")
    case True
    have step: "length (trendLoop results now timeframe i)
        = Suc (length (trendLoop results now timeframe (i - ?d)))"
      using True by (subst trendLoop.simps) simp
    show ?thesis
    proof (cases "i - ?d \<ge> 0")
      case ge: True
      then have "0 \<le> (i - ?d) div ?d" using d by (simp add: pos_imp_zdiv_nonneg_iff)
      then show ?thesis
        using step "1.IH" [OF True] ge True div_step [OF d, of i] by simp
    next
      case lt: False
      then have "i div ?d = 0" using True by simp
      then show ?thesis using step "1.IH" [OF True] lt True by simp
    qed
  next
    case False
    then show ?thesis by (subst trendLoop.simps) simp
  qed
qed

text \<open>The number of entries, the width of each period and the order of the entries.\<close>

lemma calculateTrendMetrics_length:
  "0 \<le> timeframe \<Longrightarrow>
     length (calculateTrendMetrics now results timeframe)
       = nat (timeframe div daysPerPeriod timeframe + 1)"
  by (simp add: calculateTrendMetrics_def trendLoop_length)

lemma trend_entry_width:
  assumes "b \<in> set (calculateTrendMetrics now results timeframe)"
  shows "end' (dateRange b) - start (dateRange b) = max 1 (timeframe div 10) * dayMs"
proof -
  from assms obtain j where "b = trendEntryAt results now timeframe j"
    unfolding calculateTrendMetrics_def using trendLoop_entries by blast
  then show ?thesis
    by (simp add: trendEntryAt_dateRange periodStart_def daysPerPeriod_def)
qed

lemma trendLoop_ends:
  "b \<in> set (trendLoop results now timeframe i) \<Longrightarrow> now - i * dayMs \<le> end' (dateRange b)"
proof (induction results now timeframe i rule: trendLoop.induct)
  case (1 results now timeframe i)
  show ?case
  proof (cases "i \<ge> 0")
    case True
    let ?d = "daysPerPeriod timeframe"
    have d: "1 \<le> ?d" by (simp add: daysPerPeriod_def)
    from "1.prems" True have "b = trendEntryAt results now timeframe i
        \<or> b \<in> set (trendLoop results now timeframe (i - ?d))"
      by (subst (asm) trendLoop.simps) simp
    then show ?thesis
    proof
      assume "b = trendEntryAt results now timeframe i"
      then show ?thesis by (simp add: trendEntryAt_dateRange periodEnd_def)
    next
      assume "b \<in> set (trendLoop results now timeframe (i - ?d))"
      from "1.IH" [OF True this] have "now - (i - ?d) * dayMs \<le> end' (dateRange b)" .
      moreover have "i * dayMs - ?d * dayMs \<le> i * dayMs"
        using d by (simp add: dayMs_def)
      ultimately show ?thesis by (simp add: left_diff_distrib)
    qed
  next
    case False
    then show ?thesis using "1.prems" by (subst (asm) trendLoop.simps) simp
  qed
qed

lemma trendLoop_oldest_first:
  "sorted_wrt (<) (map (\<lambda>b. end' (dateRange b)) (trendLoop results now timeframe i))"
proof (induction results now timeframe i rule: trendLoop.induct)
  case (1 results now timeframe i)
  show ?case
  proof (cases "i \<ge> 0")
    case True
    let ?d = "daysPerPeriod timeframe"
    have d: "1 \<le> ?d" by (simp add: daysPerPeriod_def)
    have "now - i * dayMs < end' (dateRange b)"
      if "b \<in> set (trendLoop results now timeframe (i - ?d))" for b
    proof -
      from trendLoop_ends [OF that] have "now - (i - ?d) * dayMs \<le> end' (dateRange b)" .
      moreover have "i * dayMs - ?d * dayMs < i * dayMs"
        using d by (simp add: dayMs_def)
      ultimately show ?thesis by (simp add: left_diff_distrib)
    qed
    then show ?thesis
      using "1.IH" [OF True] True
      by (subst trendLoop.simps) (simp add: trendEntryAt_dateRange periodEnd_def)
  next
    case False
    then show ?thesis by (subst trendLoop.simps) simp
  qed
qed

lemma trend_entries_oldest_first:
  "sorted_wrt (<) (map (\<lambda>b. end' (dateRange b)) (calculateTrendMetrics now results timeframe))"
  by (simp add: calculateTrendMetrics_def trendLoop_oldest_first)

text \<open>
  \<^bold>\<open>C2.\<close> The claim is that a timeframe of at least one day gives at most 11 entries. For a
  timeframe of 19 days the width of a period is \<open>max 1 \<lfloor>19 / 10\<rfloor> = 1\<close> day and the loop
  runs for \<open>i = 19, 18, \<dots>, 0\<close>: there are 20 entries, whatever the records and the clock.
\<close>

theorem nineteen_days_twenty_entries:
  "length (calculateTrendMetrics now results 19) = 20"
  by (simp add: calculateTrendMetrics_def trendLoop_length daysPerPeriod_def)

subsection \<open>The comparative metrics\<close>

text \<open>The ranked projects are sorted by descending quality score and have five records
  or more; a current project in the list has its position, counted from 1, as its rank, and a
  current project with a name that is not in the list has the rank 0.\<close>

lemma findIndex_absent: "\<forall>x \<in> set xs. \<not> P x \<Longrightarrow> findIndex P xs = - 1"
  by (induction xs) simp_all

lemma findIndex_present:
  "n < length xs \<Longrightarrow> P (xs ! n) \<Longrightarrow> \<forall>m < n. \<not> P (xs ! m) \<Longrightarrow> findIndex P xs = int n"
proof (induction xs arbitrary: n)
  case Nil
  then show ?case by simp
next
  case (Cons x xs)
  show ?case
  proof (cases n)
    case 0
    with Cons.prems show ?thesis by simp
  next
    case (Suc k)
    with Cons.prems have "\<not> P x" by auto
    moreover from Cons.prems Suc have "findIndex P xs = int k"
      by (intro Cons.IH) auto
    ultimately show ?thesis using Suc by (simp add: Let_def)
  qed
qed

lemma compareAll_projects:
  "projects (compareAll now currentProject allResults)
     = sort_key (\<lambda>c. - qualityScore c)
         (List.map_filter (compareProject now currentProject) (groupByProject allResults))"
  by (simp add: compareAll_def Let_def)

lemma projects_descending:
  "sorted (map (\<lambda>c. - qualityScore c) (projects (compareAll now currentProject allResults)))"
  by (simp add: compareAll_projects)

lemma rank_present:
  assumes "currentProject = Some p" and "p \<noteq> []"
    and "n < length (projects (compareAll now currentProject allResults))"
    and "c_project (projects (compareAll now currentProject allResults) ! n) = p"
    and "\<forall>m < n. c_project (projects (compareAll now currentProject allResults) ! m) \<noteq> p"
  shows "currentProjectRank (compareAll now currentProject allResults) = Some (int n + 1)"
proof -
  let ?cs = "projects (compareAll now currentProject allResults)"
  have "findIndex (\<lambda>c. Some (c_project c) = currentProject) ?cs = int n"
    using assms by (intro findIndex_present) auto
  then show ?thesis
    using assms(1,2) by (simp add: compareAll_def Let_def truthy_def)
qed

lemma rank_absent:
  assumes "currentProject = Some p" and "p \<noteq> []"
    and "p \<notin> c_project ` set (projects (compareAll now currentProject allResults))"
  shows "currentProjectRank (compareAll now currentProject allResults) = Some 0"
proof -
  let ?cs = "projects (compareAll now currentProject allResults)"
  have "findIndex (\<lambda>c. Some (c_project c) = currentProject) ?cs = - 1"
    using assms by (intro findIndex_absent) auto
  then show ?thesis
    using assms(1,2) by (simp add: compareAll_def Let_def truthy_def)
qed

lemma ranked_projects_have_five:
  assumes "c \<in> set (projects (compareAll now currentProject allResults))"
  shows "5 \<le> totalValidations c"
proof -
  from assms obtain g where "compareProject now currentProject g = Some c"
    by (auto simp: compareAll_projects List.map_filter_def)
  then show ?thesis
    by (auto simp: compareProject_def Let_def calculateOverviewMetrics_def
          overviewMetrics.defs comparison.defs split: if_splits)
qed


text \<open>
  \<^bold>\<open>C1.\<close> The claim is that the rank is \<^verbatim>\<open>null\<close> whenever the current project is not in
  the sorted list. With five records of alpha and four of beta only alpha is ranked; for the
  current project beta \<^verbatim>\<open>findIndex\<close> returns \<open>-1\<close> and the rank returned is \<open>0\<close>.
\<close>

theorem unranked_project_rank_zero:
  "map_sum id (\<lambda>c. (map c_project (projects c), currentProjectRank c))
     (calculateComparativeMetrics alphaBeta 10 [] (Some ''beta''))
   = Inr ([''alpha''], Some 0)"
  by code_simp

text \<open>
  \<^bold>\<open>C9.\<close> \<^verbatim>\<open>calculateComparativeMetrics\<close> always returns a result, and when loading the
  records of all projects fails it returns the zeroed structure.
\<close>

theorem comparative_never_raises:
  "(\<exists>r. calculateComparativeMetrics store now currentResults currentProject = Inr r)
   \<and> (\<forall>e. loadValidationResults store None None = Inl e \<longrightarrow>
         calculateComparativeMetrics store now currentResults currentProject =
           Inr \<lparr>projects = [], totalProjects = 0, currentProjectRank = None,
                industryAverage = \<lparr>avgQualityScore = 0, avgSuccessRate = 0\<rparr>\<rparr>)"
  by (auto simp: calculateComparativeMetrics_def zeroedComparative_def split: sum.splits)

theorem comparative_never_raises_witness:
  "loadValidationResults unreadableStore None None = Inl (Error ''EACCES: permission denied'')
   \<and> calculateComparativeMetrics unreadableStore 0 [] (Some ''alpha'') =
           Inr \<lparr>projects = [], totalProjects = 0, currentProjectRank = None,
                industryAverage = \<lparr>avgQualityScore = 0, avgSuccessRate = 0\<rparr>\<rparr>"
  using comparative_never_raises [of unreadableStore 0 "[]" "Some ''alpha''"]
  by (simp add: loadValidationResults_def unreadableStore_def)

subsection \<open>Loading and the cache\<close>

text \<open>The load fails exactly when the directory cannot be created or listed; a file that
  cannot be read or parsed is skipped.\<close>

lemma loadValidationResults_Inl:
  "loadValidationResults store projectName cutoffDate = Inl e
     \<longleftrightarrow> (ensureDir store = Some e \<or> (ensureDir store = None \<and> readdir store = Inl e))"
  by (auto simp: loadValidationResults_def Let_def split: option.splits sum.splits)

text \<open>Whether the load fails does not depend on the filters.\<close>

lemma computeMetrics_load_fails:
  assumes "loadValidationResults store projectName cutoffDate = Inl e"
  shows "computeMetrics store lib now projectName timeframe = Inl e"
proof -
  from assms have "loadValidationResults store projectName
      (new_Date (now - timeframe * dayMs)) = Inl e"
    by (simp only: loadValidationResults_Inl)
  then show ?thesis by (simp add: computeMetrics_def)
qed



text \<open>The trend loop throws in its first round or in none: a timeframe below 0 runs no round,
  and the dates of the first round are the earliest.\<close>

lemma trendLoop_throws_valid:
  assumes "validDate (periodStart now timeframe j)" and "validDate now" and "i \<le> j"
  shows "trendLoop_throws now timeframe i = None"
  using assms
proof (induction now timeframe i rule: trendLoop_throws.induct)
  case (1 now timeframe i)
  let ?d = "daysPerPeriod timeframe"
  have d: "1 \<le> ?d" by (simp add: daysPerPeriod_def)
  show ?case
  proof (cases "i \<ge> 0")
    case True
    have lo: "periodStart now timeframe j \<le> periodStart now timeframe i"
      using "1.prems"(3) by (simp add: periodStart_def periodEnd_def dayMs_def)
    have "periodStart now timeframe i \<le> periodEnd now i"
      using d by (simp add: periodStart_def dayMs_def)
    moreover have "periodEnd now i \<le> now"
      using True by (simp add: periodEnd_def dayMs_def)
    ultimately have v: "validDate (periodEnd now i) \<and> validDate (periodStart now timeframe i)"
      using lo "1.prems"(1,2) by (simp add: validDate_def abs_le_iff)
    have "i - ?d \<le> j" using "1.prems"(3) d by simp
    from "1.IH" [OF True v "1.prems"(1,2) this]
    have "trendLoop_throws now timeframe (i - ?d) = None" .
    with v show ?thesis using True by (subst trendLoop_throws.simps) simp
  next
    case False
    then show ?thesis by (subst trendLoop_throws.simps) simp
  qed
qed

lemma calculateTrendMetrics_throws_iff:
  assumes "validDate now"
  shows "calculateTrendMetrics_throws now timeframe = None
           \<longleftrightarrow> timeframe < 0 \<or> validDate (periodStart now timeframe timeframe)"
proof (cases "timeframe < 0")
  case True
  then show ?thesis
    unfolding calculateTrendMetrics_throws_def by (subst trendLoop_throws.simps) simp
next
  case False
  show ?thesis
  proof (cases "validDate (periodStart now timeframe timeframe)")
    case True
    from trendLoop_throws_valid [OF True assms order_refl] show ?thesis
      using True by (simp add: calculateTrendMetrics_throws_def)
  next
    case invalid: False
    then show ?thesis
      using False unfolding calculateTrendMetrics_throws_def
      by (subst trendLoop_throws.simps) simp
  qed
qed

lemma cacheTimeout_ms: "cacheTimeout = 300000"
  by (simp add: cacheTimeout_def)


lemma calculateQualityMetrics_miss:
  assumes "\<forall>c. metricsCache (cacheKey projectName timeframe) = Some c
               \<longrightarrow> 300000 \<le> now - cachedAt c"
  shows "calculateQualityMetrics store lib now projectName timeframe metricsCache
       = (case computeMetrics store lib now projectName timeframe of
            Inr metrics \<Rightarrow>
              (Inr metrics,
               metricsCache(cacheKey projectName timeframe
                              \<mapsto> \<lparr>data = metrics, cachedAt = now\<rparr>))
          | Inl e \<Rightarrow>
              (Inl (Error (''Failed to calculate quality metrics: '' @ errorMessage e)),
               metricsCache))"
proof (cases "metricsCache (cacheKey projectName timeframe)")
  case None
  then show ?thesis by (simp add: calculateQualityMetrics_def)
next
  case (Some c)
  with assms have "\<not> now - cachedAt c < cacheTimeout" by (simp add: cacheTimeout_ms)
  with Some show ?thesis by (simp add: calculateQualityMetrics_def)
qed

text \<open>
  \<^bold>\<open>C3.\<close> The claim is that an unreadable store yields the empty sequence. On a directory
  that cannot be created the load throws, and so does the request for the snapshot.
\<close>

theorem unreadable_store_counterexample:
  "loadValidationResults unreadableStore None None = Inl (Error ''EACCES: permission denied'')
   \<and> fst (calculateQualityMetrics unreadableStore noLibrary 0 None 30 Map.empty)
       = Inl (Error ''Failed to calculate quality metrics: EACCES: permission denied'')"
  by code_simp

text \<open>
  \<^bold>\<open>C3\<close>, amended. \<^verbatim>\<open>loadValidationResults\<close> throws exactly when the directory cannot be
  created or listed, with the error of that call. Then a request for the snapshot that no
  entry of the cache younger than 300 000 ms serves throws an error with the message
  \<^verbatim>\<open>Failed to calculate quality metrics: \<close> followed by the message of the cause, and
  leaves the cache as it was.
\<close>

theorem unreadable_store_raises:
  "(loadValidationResults store projectName cutoffDate = Inl e
      \<longleftrightarrow> (ensureDir store = Some e \<or> (ensureDir store = None \<and> readdir store = Inl e)))
   \<and> (loadValidationResults store projectName (Some (now - timeframe * dayMs)) = Inl e
        \<and> (\<forall>c. metricsCache (cacheKey projectName timeframe) = Some c
                \<longrightarrow> 300000 \<le> now - cachedAt c)
      \<longrightarrow> calculateQualityMetrics store lib now projectName timeframe metricsCache
            = (Inl (Error (''Failed to calculate quality metrics: '' @ errorMessage e)),
               metricsCache))"
proof (intro conjI impI)
  show "loadValidationResults store projectName cutoffDate = Inl e
      \<longleftrightarrow> (ensureDir store = Some e \<or> (ensureDir store = None \<and> readdir store = Inl e))"
    by (rule loadValidationResults_Inl)
next
  assume a: "loadValidationResults store projectName (Some (now - timeframe * dayMs)) = Inl e
        \<and> (\<forall>c. metricsCache (cacheKey projectName timeframe) = Some c
                \<longrightarrow> 300000 \<le> now - cachedAt c)"
  then have "loadValidationResults store projectName (Some (now - timeframe * dayMs)) = Inl e"
    by simp
  then have "computeMetrics store lib now projectName timeframe = Inl e"
    by (rule computeMetrics_load_fails)
  with a show "calculateQualityMetrics store lib now projectName timeframe metricsCache
            = (Inl (Error (''Failed to calculate quality metrics: '' @ errorMessage e)),
               metricsCache)"
    by (simp add: calculateQualityMetrics_miss)
qed

theorem unreadable_store_raises_witness:
  "loadValidationResults unreadableStore None (Some (0 - 30 * dayMs))
      = Inl (Error ''EACCES: permission denied'')
   \<and> calculateQualityMetrics unreadableStore noLibrary 0 None 30 Map.empty
      = (Inl (Error ''Failed to calculate quality metrics: EACCES: permission denied''),
         Map.empty)"
  using unreadable_store_raises [of unreadableStore None "Some (0 - 30 * dayMs)"
          "Error ''EACCES: permission denied''" 0 30 Map.empty noLibrary]
  by (simp add: unreadableStore_def)




subsection \<open>The performance metrics\<close>






end
